theory Spec2Isabelle
  imports Main "HOL-Library.Word"
begin

unbundle bit_operations_syntax

section \<open>Go values\<close>

text \<open>
  Bytes and fixed-width unsigned integers are words. A Go \<open>string\<close> is a sequence
  of bytes and \<open>len\<close> counts bytes; HOL's \<open>char\<close> has exactly 256 values, so
  \<open>string\<close> (a \<open>char list\<close>) is that sequence. The conversions \<open>[]byte(s)\<close> and
  \<open>string(b)\<close> copy the bytes one by one.
\<close>

type_synonym byte = "8 word"
type_synonym uint16 = "16 word"
type_synonym uint32 = "32 word"

definition bytes_of_string :: "string \<Rightarrow> byte list" where
  "bytes_of_string s = map (\<lambda>c. of_nat (of_char c)) s"

definition string_of_bytes :: "byte list \<Rightarrow> string" where
  "string_of_bytes b = map (\<lambda>w. char_of (unat w)) b"

text \<open>
  The Go \<open>error\<close> interface, as far as the code under study builds and inspects
  error values. \<open>Errno n\<close> is \<open>syscall.Errno(n)\<close>; \<open>Errorf f args e\<close> is
  \<open>fmt.Errorf(f, args..., e)\<close>; \<open>WithStack e\<close> is \<open>errors.WithStack(e)\<close>.
\<close>

datatype error =
    errInvalidEaBuffer
  | errEaNameTooLarge
  | errEaValueTooLarge
  | Errno nat
  | PathError error
  | XattrError error
  | Errorf string "string list" error
  | WithStack error
  | MultipleErrors "error list"

section \<open>encoding/binary, little endian\<close>

definition PutUint16 :: "uint16 \<Rightarrow> byte list" where
  "PutUint16 v = [ucast v, ucast (drop_bit 8 v)]"

definition PutUint32 :: "uint32 \<Rightarrow> byte list" where
  "PutUint32 v = [ucast v, ucast (drop_bit 8 v), ucast (drop_bit 16 v), ucast (drop_bit 24 v)]"

text \<open>Reading needs 2 (4) bytes; the callers below check the length first.\<close>

definition le_uint16 :: "byte list \<Rightarrow> uint16" where
  "le_uint16 b = ucast (b ! 0) OR push_bit 8 (ucast (b ! 1))"

definition le_uint32 :: "byte list \<Rightarrow> uint32" where
  "le_uint32 b = ucast (b ! 0) OR push_bit 8 (ucast (b ! 1))
     OR push_bit 16 (ucast (b ! 2)) OR push_bit 24 (ucast (b ! 3))"

text \<open>
  \<open>binary.LittleEndian.Uint32(b)\<close> panics (index out of range) on fewer than four
  bytes: \<open>None\<close>.
\<close>

definition Uint32 :: "byte list \<Rightarrow> uint32 option" where
  "Uint32 b = (if length b < 4 then None else Some (le_uint32 b))"

section \<open>The EA codec (internal/fs/ea\_windows.go)\<close>

record ExtendedAttribute =
  Name :: string
  Value :: "byte list"
  Flags :: byte

record fileFullEaInformation =
  NextEntryOffset :: uint32
  info_Flags :: byte
  NameLength :: byte
  ValueLength :: uint16

text \<open>\<open>binary.Size(&fileFullEaInformation{})\<close>: 4 + 1 + 1 + 2 bytes.\<close>

definition fileFullEaInformationSize :: nat where
  "fileFullEaInformationSize = 8"

text \<open>
  \<open>binary.Read(bytes.NewReader(b), binary.LittleEndian, &info)\<close> fills the four
  fields in order from the first eight bytes and fails on a shorter buffer.
\<close>

definition binary_Read_info :: "byte list \<Rightarrow> fileFullEaInformation option" where
  "binary_Read_info b =
     (if length b < 8 then None
      else Some \<lparr>NextEntryOffset = le_uint32 (take 4 b),
                 info_Flags = b ! 4,
                 NameLength = b ! 5,
                 ValueLength = le_uint16 (take 2 (drop 6 b))\<rparr>)"

definition binary_Write_info :: "fileFullEaInformation \<Rightarrow> byte list" where
  "binary_Write_info info =
     PutUint32 (NextEntryOffset info) @ [info_Flags info] @ [NameLength info]
       @ PutUint16 (ValueLength info)"

text \<open>
  \<open>parseEa\<close> returns \<open>(ea, nb, err)\<close>; its caller reads \<open>ea\<close> and \<open>nb\<close> only when
  \<open>err\<close> is nil, so the result is a sum. The lengths and offsets are natural numbers.
  With an \<open>int\<close> of 64 bits \<open>int(info.NextEntryOffset)\<close> is never negative; with an
  \<open>int\<close> of 32 bits it is negative for an offset of \<open>2^31\<close> or more, which is also
  more than the length of any buffer there: the third test subsumes the second, which is
  kept as written. All slice expressions are in range once the check has passed.
\<close>

definition parseEa :: "byte list \<Rightarrow> error + (ExtendedAttribute \<times> byte list)" where
  "parseEa b =
     (case binary_Read_info b of
        None \<Rightarrow> Inl errInvalidEaBuffer
      | Some info \<Rightarrow>
          (let nameOffset = fileFullEaInformationSize;
               nameLen = unat (NameLength info);
               valueOffset = nameOffset + unat (NameLength info) + 1;
               valueLen = unat (ValueLength info);
               nextOffset = unat (NextEntryOffset info)
           in if valueLen + valueOffset > length b \<or> int nextOffset < 0 \<or> nextOffset > length b
              then Inl errInvalidEaBuffer
              else Inr (\<lparr>Name = string_of_bytes (take nameLen (drop nameOffset b)),
                         Value = take valueLen (drop valueOffset b),
                         Flags = info_Flags info\<rparr>,
                        if NextEntryOffset info \<noteq> 0 then drop nextOffset b else [])))"

text \<open>
  The loop of \<open>DecodeExtendedAttributes\<close>: \<open>for len(b) != 0\<close>. It always ends, since
  a non-zero \<open>NextEntryOffset\<close> shortens the buffer and a zero one empties it.
\<close>

function DecodeExtendedAttributes_loop ::
  "byte list \<Rightarrow> ExtendedAttribute list \<Rightarrow> error + ExtendedAttribute list" where
  "DecodeExtendedAttributes_loop b eas =
     (if length b \<noteq> 0
      then (case parseEa b of
              Inl err \<Rightarrow> Inl err
            | Inr (ea, nb) \<Rightarrow> DecodeExtendedAttributes_loop nb (eas @ [ea]))
      else Inr eas)"
  by pat_completeness auto
termination
proof (relation "measure (\<lambda>(b, eas). length b)")
  show "wf (measure (\<lambda>(b, eas). length b))" by simp
next
  fix b :: "byte list" and eas :: "ExtendedAttribute list" and r ea nb
  assume nonempty: "length b \<noteq> 0" and parsed: "parseEa b = Inr r" and r: "(ea, nb) = r"
  from parsed r obtain info where
    info: "binary_Read_info b = Some info" and
    nb: "nb = (if NextEntryOffset info \<noteq> 0 then drop (unat (NextEntryOffset info)) b else [])"
    by (auto simp: parseEa_def Let_def split: option.splits if_splits)
  have "length nb < length b"
  proof (cases "NextEntryOffset info = 0")
    case True
    with nb nonempty show ?thesis by simp
  next
    case False
    then have "unat (NextEntryOffset info) \<noteq> 0" by (simp add: unat_eq_0)
    with nb nonempty False show ?thesis by simp
  qed
  then show "((nb, eas @ [ea]), (b, eas)) \<in> measure (\<lambda>(b, eas). length b)" by simp
qed

definition DecodeExtendedAttributes :: "byte list \<Rightarrow> error + ExtendedAttribute list" where
  "DecodeExtendedAttributes b = DecodeExtendedAttributes_loop b []"

text \<open>
  \<open>writeEa\<close> appends one record to the buffer. Writing to a \<open>bytes.Buffer\<close> does not
  fail, so the only errors are the two size checks. The padding is the slice
  \<open>[]byte{0, 0, 0}[0 : withPadding-entrySize]\<close>, whose bound is at most 3
  (lemma \<open>writeEa_padding_le_3\<close>).
\<close>

definition writeEa :: "byte list \<Rightarrow> ExtendedAttribute \<Rightarrow> bool \<Rightarrow> error + byte list" where
  "writeEa buf ea isLast =
     (if unat (of_nat (length (Name ea)) :: byte) \<noteq> length (Name ea)
      then Inl errEaNameTooLarge
      else if unat (of_nat (length (Value ea)) :: uint16) \<noteq> length (Value ea)
      then Inl errEaValueTooLarge
      else
        (let entrySize = (of_nat (fileFullEaInformationSize + length (Name ea) + 1
                                   + length (Value ea)) :: uint32);
             withPadding = (entrySize + 3) AND NOT 3;
             nextOffset = (if \<not> isLast then withPadding else 0);
             info = \<lparr>NextEntryOffset = nextOffset,
                     info_Flags = Flags ea,
                     NameLength = of_nat (length (Name ea)),
                     ValueLength = of_nat (length (Value ea))\<rparr>
         in Inr (buf @ binary_Write_info info @ bytes_of_string (Name ea) @ [0] @ Value ea
                   @ take (unat (withPadding - entrySize)) [0, 0, 0])))"

text \<open>
  \<open>EncodeExtendedAttributes\<close>: \<open>for i := range eas\<close>, with \<open>last\<close> set at index
  \<open>len(eas)-1\<close>; the first error ends the loop with \<open>return nil, err\<close>, which is
  \<open>Inl err\<close>: no buffer comes with an error.
\<close>

fun EncodeExtendedAttributes_loop ::
  "ExtendedAttribute list \<Rightarrow> nat list \<Rightarrow> byte list \<Rightarrow> error + byte list" where
  "EncodeExtendedAttributes_loop eas [] buf = Inr buf"
| "EncodeExtendedAttributes_loop eas (i # idxs) buf =
     (let isLast = (if int i = int (length eas) - 1 then True else False)
      in case writeEa buf (eas ! i) isLast of
           Inl err \<Rightarrow> Inl err
         | Inr buf' \<Rightarrow> EncodeExtendedAttributes_loop eas idxs buf')"

definition EncodeExtendedAttributes :: "ExtendedAttribute list \<Rightarrow> error + byte list" where
  "EncodeExtendedAttributes eas = EncodeExtendedAttributes_loop eas [0..<length eas] []"

text \<open>
  An auxiliary name for the proofs, not a function of the source: the bytes that
  \<open>writeEa\<close> appends for an attribute that passes both size checks
  (lemma \<open>writeEa_valid\<close>).
\<close>

definition ea_record :: "ExtendedAttribute \<Rightarrow> bool \<Rightarrow> byte list" where
  "ea_record ea isLast =
     (let entrySize = (of_nat (fileFullEaInformationSize + length (Name ea) + 1
                                   + length (Value ea)) :: uint32);
          withPadding = (entrySize + 3) AND NOT 3
      in binary_Write_info \<lparr>NextEntryOffset = (if \<not> isLast then withPadding else 0),
                     info_Flags = Flags ea,
                     NameLength = of_nat (length (Name ea)),
                     ValueLength = of_nat (length (Value ea))\<rparr>
          @ bytes_of_string (Name ea) @ [0] @ Value ea
          @ take (unat (withPadding - entrySize)) [0, 0, 0])"

declare DecodeExtendedAttributes_loop.simps [simp del]

section \<open>Querying the extended attributes of a file (GetFileEA, ea\_windows.go)\<close>

text \<open>
  \<open>type ntStatus int32\<close>: a 32-bit word, read as a signed number with \<open>sint\<close>.
\<close>

type_synonym ntStatus = "32 word"

definition noExtendedAttribsStatus :: ntStatus where
  "noExtendedAttribsStatus = word_of_int (- 1073741742)"

text \<open>Windows error codes of \<open>golang.org/x/sys/windows\<close>.\<close>

definition ERROR_ACCESS_DENIED :: nat where
  "ERROR_ACCESS_DENIED = 5"

definition ERROR_INSUFFICIENT_BUFFER :: nat where
  "ERROR_INSUFFICIENT_BUFFER = 122"

definition ERROR_MORE_DATA :: nat where
  "ERROR_MORE_DATA = 234"

text \<open>
  The two procedures of ntdll.dll that the code calls, over a state \<open>'w\<close> of the
  operating system. \<open>NtQueryEaFile len w\<close> is the query with a buffer announced as
  \<open>len\<close> bytes long: it gives the status and the bytes the system wrote to the start
  of the buffer.
\<close>

record 'w ntdll =
  NtQueryEaFile :: "uint32 \<Rightarrow> 'w \<Rightarrow> (ntStatus \<times> byte list) \<times> 'w"
  RtlNtStatusToDosErrorNoTeb :: "ntStatus \<Rightarrow> nat"

definition rtlNtStatusToDosError :: "'w ntdll \<Rightarrow> ntStatus \<Rightarrow> error option" where
  "rtlNtStatusToDosError api status =
     (let r0 = RtlNtStatusToDosErrorNoTeb api status
      in if r0 \<noteq> 0 then Some (Errno r0) else None)"

definition ntStatus_Err :: "'w ntdll \<Rightarrow> ntStatus \<Rightarrow> error option" where
  "ntStatus_Err api status =
     (if 0 \<le> sint status then None else rtlNtStatusToDosError api status)"

text \<open>
  The loop of \<open>GetFileEA\<close>. Each round works on a fresh zeroed buffer of \<open>bufLen\<close>
  bytes (\<open>make([]byte, bufLen)\<close>) and announces \<open>uint32(bufLen)\<close> to the system.
  The loop has no exit of its own while the system keeps answering that the buffer is too
  small, so the function is partial: \<open>None\<close> is a run that never returns.
  \<open>bufLen\<close> is a Go \<open>int\<close> of 64 bits; it would wrap only after 53 doublings, at
  a buffer of \<open>2^63\<close> bytes, which no allocation reaches, so it is a natural number
  here and the failure of an allocation is outside the model. The conversion to
  \<open>uint32\<close> does wrap, from \<open>2^32\<close> bytes on.

  The list \<open>sizes\<close> is not a variable of the source: it records the lengths of the
  buffers allocated so far, so that the growth of the buffer can be stated.
\<close>

partial_function (option) GetFileEA_loop ::
  "'w ntdll \<Rightarrow> nat \<Rightarrow> nat list \<Rightarrow> 'w
     \<Rightarrow> ((error + ExtendedAttribute list) \<times> nat list \<times> 'w) option" where
  "GetFileEA_loop api bufLen sizes w =
     (case NtQueryEaFile api (of_nat bufLen) w of
        ((status, written), w') \<Rightarrow>
          (let buf = take bufLen (written @ replicate bufLen 0);
               sizes' = sizes @ [bufLen]
           in if status = noExtendedAttribsStatus then Some (Inr [], sizes', w')
              else (case ntStatus_Err api status of
                      Some err \<Rightarrow>
                        if err = Errno ERROR_INSUFFICIENT_BUFFER \<or> err = Errno ERROR_MORE_DATA
                        then GetFileEA_loop api (bufLen * 2) sizes' w'
                        else Some (Inl (Errorf ''get file EA failed with: %w'' [] err), sizes', w')
                    | None \<Rightarrow> Some (DecodeExtendedAttributes buf, sizes', w'))))"

declare GetFileEA_loop.simps [code]

definition GetFileEA ::
  "'w ntdll \<Rightarrow> 'w \<Rightarrow> ((error + ExtendedAttribute list) \<times> nat list \<times> 'w) option" where
  "GetFileEA api w = GetFileEA_loop api 1024 [] w"

text \<open>
  Names for stating the behaviour of the loop, not functions of the source:
  \<open>insufficient\<close> holds of a status that makes the loop go round again;
  \<open>after_retries api n bufLen w\<close> is the state of the system after \<open>n\<close> queries
  with buffers of \<open>bufLen\<close>, \<open>2 * bufLen\<close>, ... bytes, and \<open>status_at\<close> the
  status that the next query then gets.
\<close>

definition insufficient :: "'w ntdll \<Rightarrow> ntStatus \<Rightarrow> bool" where
  "insufficient api status =
     (status \<noteq> noExtendedAttribsStatus
      \<and> (ntStatus_Err api status = Some (Errno ERROR_INSUFFICIENT_BUFFER)
         \<or> ntStatus_Err api status = Some (Errno ERROR_MORE_DATA)))"

fun after_retries :: "'w ntdll \<Rightarrow> nat \<Rightarrow> nat \<Rightarrow> 'w \<Rightarrow> 'w" where
  "after_retries api 0 bufLen w = w"
| "after_retries api (Suc n) bufLen w =
     after_retries api n (bufLen * 2) (snd (NtQueryEaFile api (of_nat bufLen) w))"

definition status_at :: "'w ntdll \<Rightarrow> nat \<Rightarrow> nat \<Rightarrow> 'w \<Rightarrow> ntStatus" where
  "status_at api n bufLen w =
     fst (fst (NtQueryEaFile api (of_nat (bufLen * 2 ^ n)) (after_retries api n bufLen w)))"



section \<open>Nodes and their attributes (package restic)\<close>

text \<open>
  \<open>restic.Attribute\<close> has the fields \<open>Name\<close> and \<open>Value\<close>; they are prefixed here
  to keep them apart from the fields of \<open>fs.ExtendedAttribute\<close>. \<open>Value\<close> is a Go
  slice, which has a capacity next to its length: \<open>attr_Value\<close> holds the
  \<open>len(Value)\<close> bytes of the slice and \<open>attr_Spare\<close> the bytes of its backing array
  behind them, so that \<open>cap(Value)\<close> is the length of both together. Only a slice
  expression reads the capacity; the slices that the capturing functions build are taken
  with no spare bytes. Of a \<open>Node\<close> only the fields that the code under study reads or
  writes are kept.
\<close>

record Attribute =
  attr_Name :: string
  attr_Value :: "byte list"
  attr_Spare :: "byte list"

record Node =
  Type :: string
  ExtendedAttributes :: "Attribute list"
  GenericAttributes :: "Attribute list"

section \<open>The POSIX extended-attribute adapter (darwin, freebsd, linux, solaris)\<close>












section \<open>The Windows environment of package restic\<close>

text \<open>Attribute bits of \<open>golang.org/x/sys/windows\<close>.\<close>

definition FILE_ATTRIBUTE_SYSTEM :: uint32 where
  "FILE_ATTRIBUTE_SYSTEM = 0x4"

definition FILE_ATTRIBUTE_ENCRYPTED :: uint32 where
  "FILE_ATTRIBUTE_ENCRYPTED = 0x4000"

text \<open>
  \<open>syscall.UTF16PtrFromString\<close> fails with \<open>EINVAL\<close> exactly when the string holds a
  NUL byte. The pointer it returns stands for the same path, so the path itself is passed
  on to the system calls.
\<close>

definition EINVAL :: nat where
  "EINVAL = 536870951"

definition UTF16PtrFromString :: "string \<Rightarrow> error + string" where
  "UTF16PtrFromString s = (if CHR 0x00 \<in> set s then Inl (Errno EINVAL) else Inr s)"

text \<open>Functions of package \<open>strings\<close>.\<close>

definition strings_HasPrefix :: "string \<Rightarrow> string \<Rightarrow> bool" where
  "strings_HasPrefix s p = (length p \<le> length s \<and> take (length p) s = p)"

definition strings_HasSuffix :: "string \<Rightarrow> string \<Rightarrow> bool" where
  "strings_HasSuffix s suffix =
     (length suffix \<le> length s \<and> drop (length s - length suffix) s = suffix)"

fun strings_Contains :: "string \<Rightarrow> string \<Rightarrow> bool" where
  "strings_Contains [] substr = (substr = [])"
| "strings_Contains (c # s) substr =
     (strings_HasPrefix (c # s) substr \<or> strings_Contains s substr)"

record Filetime =
  LowDateTime :: uint32
  HighDateTime :: uint32

text \<open>
  \<open>syscall.Win32FileAttributeData\<close> (and \<open>statT\<close>, which is the same structure), with
  the fields the code reads. \<open>Sys fi\<close> is \<open>None\<close> when \<open>fi.Sys()\<close> is not a non-nil
  \<open>*syscall.Win32FileAttributeData\<close>.
\<close>

record Win32FileAttributeData =
  FileAttributes :: uint32
  CreationTime :: Filetime

type_synonym statT = Win32FileAttributeData

record FileInfo =
  Sys :: "Win32FileAttributeData option"

text \<open>
  The procedures of the operating system and of neighbouring packages that the code
  calls, over a state \<open>'w\<close> of the system: \<open>path/filepath\<close> (for Windows paths), the
  procedures \<open>EncryptFileW\<close> and \<open>DecryptFileW\<close> of advapi32.dll (an error stands for
  the return value 0), the system calls of \<open>syscall\<close> and \<open>windows\<close>, and the functions
  \<open>ClearSystem\<close>, \<open>GetFileSecurityDescriptor\<close> and \<open>SetFileSecurityDescriptor\<close> of
  package \<open>fs\<close>, whose bodies are not among the sources. A handle is a number.
\<close>

record 'w winapi =
  filepath_Base :: "string \<Rightarrow> string"
  filepath_Clean :: "string \<Rightarrow> string"
  EncryptFileW :: "string \<Rightarrow> 'w \<Rightarrow> error option \<times> 'w"
  DecryptFileW :: "string \<Rightarrow> 'w \<Rightarrow> error option \<times> 'w"
  ClearSystem :: "string \<Rightarrow> 'w \<Rightarrow> error option \<times> 'w"
  GetFileAttributes :: "string \<Rightarrow> 'w \<Rightarrow> (error + uint32) \<times> 'w"
  SetFileAttributes :: "string \<Rightarrow> uint32 \<Rightarrow> 'w \<Rightarrow> error option \<times> 'w"
  CreateFile :: "string \<Rightarrow> 'w \<Rightarrow> (error + nat) \<times> 'w"
  CloseHandle :: "nat \<Rightarrow> 'w \<Rightarrow> error option \<times> 'w"
  SetFileTime :: "nat \<Rightarrow> Filetime \<Rightarrow> 'w \<Rightarrow> error option \<times> 'w"
  GetFileSecurityDescriptor :: "string \<Rightarrow> 'w \<Rightarrow> (error + string) \<times> 'w"
  SetFileSecurityDescriptor :: "string \<Rightarrow> string \<Rightarrow> 'w \<Rightarrow> error option \<times> 'w"

text \<open>
  The calls made, in order, are recorded next to the state of the system, so that
  statements about which procedure is invoked can be made.
\<close>

datatype syscall =
    Call_EncryptFileW string
  | Call_DecryptFileW string
  | Call_ClearSystem string
  | Call_GetFileAttributes string
  | Call_SetFileAttributes string uint32
  | Call_CreateFile string
  | Call_CloseHandle nat
  | Call_SetFileTime nat Filetime
  | Call_GetFileSecurityDescriptor string
  | Call_SetFileSecurityDescriptor string string

text \<open>
  The state a function of the package runs in: the system, the calls made so far, the
  lines of the debug log (format, string arguments, error argument), the process-wide set
  of unknown attribute types, and the diagnostics emitted for unknown types, each named by
  the type it reports.
\<close>

record 'w state =
  world :: 'w
  calls :: "syscall list"
  debugLog :: "(string \<times> string list \<times> error option) list"
  unknownAttributeTypes :: "string set"
  diagnostics :: "string list"

definition sys :: "syscall \<Rightarrow> ('w \<Rightarrow> 'a \<times> 'w) \<Rightarrow> 'w state \<Rightarrow> 'a \<times> 'w state" where
  "sys c f s = (case f (world s) of (r, w') \<Rightarrow> (r, s\<lparr>world := w', calls := calls s @ [c]\<rparr>))"

definition debug_Log :: "string \<Rightarrow> string list \<Rightarrow> error option \<Rightarrow> 'w state \<Rightarrow> 'w state" where
  "debug_Log format args err s = s\<lparr>debugLog := debugLog s @ [(format, args, err)]\<rparr>"

text \<open>A function either returns or panics.\<close>

datatype 'a go = Panics | Returns 'a

section \<open>Parts of the repository that are not among the sources\<close>

text \<open>
  Modelled from the spec: the type tags of the generic attributes, constants of package
  \<open>restic\<close> declared outside the sources. The spec names them file-attribute-bits,
  creation-time and security-descriptor.
\<close>

definition TypeFileAttribute :: string where
  "TypeFileAttribute = ''file-attribute-bits''"

definition TypeCreationTime :: string where
  "TypeCreationTime = ''creation-time''"

definition TypeSecurityDescriptor :: string where
  "TypeSecurityDescriptor = ''security-descriptor''"

text \<open>
  Modelled from the spec: \<open>NewGenericAttribute\<close>, declared outside the sources. A
  generic attribute is the pair of its type tag and its value.
\<close>

definition NewGenericAttribute :: "string \<Rightarrow> byte list \<Rightarrow> Attribute" where
  "NewGenericAttribute t v = \<lparr>attr_Name = t, attr_Value = v, attr_Spare = []\<rparr>"

text \<open>
  Modelled from the spec: \<open>handleUnknownGenericAttributeFound\<close>, declared outside the
  sources: ``insert the Type into the process-wide unknown-type set and, only if the Type
  was not already present, emit one diagnostic''.
\<close>

definition handleUnknownGenericAttributeFound :: "string \<Rightarrow> 'w state \<Rightarrow> 'w state" where
  "handleUnknownGenericAttributeFound t s =
     (if t \<in> unknownAttributeTypes s then s
      else s\<lparr>unknownAttributeTypes := insert t (unknownAttributeTypes s),
             diagnostics := diagnostics s @ [t]\<rparr>)"

text \<open>
  Modelled from the spec: \<open>errors.CombineErrors\<close>, declared outside the sources:
  ``return a combined/aggregate error at the end if any occurred''; no error at all
  combines to nil.
\<close>

definition CombineErrors :: "error list \<Rightarrow> error option" where
  "CombineErrors errs = (if errs = [] then None else Some (MultipleErrors errs))"

text \<open>
  Modelled from the spec: \<open>fs.IsErrorOfType\<close>, declared outside the sources; an
  ``access-denied failure'' is the error number \<open>ERROR_ACCESS_DENIED\<close>.
\<close>

definition IsErrorOfType :: "error \<Rightarrow> nat \<Rightarrow> bool" where
  "IsErrorOfType err code = (err = Errno code)"

section \<open>internal/fs/file\_windows.go\<close>

definition IsAccessDeniedError :: "error \<Rightarrow> bool" where
  "IsAccessDeniedError err = IsErrorOfType err ERROR_ACCESS_DENIED"

definition IsAccessDenied :: "error \<Rightarrow> bool" where
  "IsAccessDenied err =
     (let isAccessDenied = IsAccessDeniedError err
      in if \<not> isAccessDenied
         then (case err of PathError e \<Rightarrow> IsAccessDeniedError e | _ \<Rightarrow> isAccessDenied)
         else isAccessDenied)"

section \<open>internal/restic/node\_windows.go: restoring generic attributes\<close>

text \<open>\<open>encryptFile\<close> and \<open>decryptFile\<close>: the call of the procedure and its error.\<close>

definition encryptFile :: "'w winapi \<Rightarrow> string \<Rightarrow> 'w state \<Rightarrow> error option \<times> 'w state" where
  "encryptFile api pathPointer s = sys (Call_EncryptFileW pathPointer) (EncryptFileW api pathPointer) s"

definition decryptFile :: "'w winapi \<Rightarrow> string \<Rightarrow> 'w state \<Rightarrow> error option \<times> 'w state" where
  "decryptFile api pathPointer s = sys (Call_DecryptFileW pathPointer) (DecryptFileW api pathPointer) s"

text \<open>
  \<open>fixEncryptionAttribute\<close>. The branch for a file that should be encrypted calls
  \<open>encryptFile\<close> at once; the other branch reads the attributes of the existing file
  first. Every failure returns from inside; the \<open>return err\<close> at the end is reached with
  a nil error only.
\<close>

definition fixEncryptionAttribute ::
  "'w winapi \<Rightarrow> string \<Rightarrow> uint32 \<Rightarrow> string \<Rightarrow> 'w state \<Rightarrow> error option \<times> 'w state" where
  "fixEncryptionAttribute api path attrs pathPointer s =
     (if attrs AND FILE_ATTRIBUTE_ENCRYPTED \<noteq> 0
      then
        (case encryptFile api pathPointer s of
           (None, s1) \<Rightarrow> (None, s1)
         | (Some err, s1) \<Rightarrow>
             if IsAccessDenied err
             then
               (case sys (Call_ClearSystem path) (ClearSystem api path) s1 of
                  (Some err, s2) \<Rightarrow>
                    (Some (Errorf ''failed to encrypt file: failed to clear system flag: %s : %v''
                             [path] err), s2)
                | (None, s2) \<Rightarrow>
                    (case encryptFile api pathPointer s2 of
                       (Some err, s3) \<Rightarrow>
                         (Some (Errorf ''failed to encrypt file: %s : %v'' [path] err), s3)
                     | (None, s3) \<Rightarrow> (None, s3)))
             else (Some (Errorf ''failed to encrypt file: %s : %v'' [path] err), s1))
      else
        (case sys (Call_GetFileAttributes pathPointer) (GetFileAttributes api pathPointer) s of
           (Inl err, s1) \<Rightarrow>
             (Some (Errorf ''failed to get file attributes for existing file: %s : %v''
                      [path] err), s1)
         | (Inr existingAttrs, s1) \<Rightarrow>
             if existingAttrs AND FILE_ATTRIBUTE_ENCRYPTED \<noteq> 0
             then
               (case decryptFile api pathPointer s1 of
                  (None, s2) \<Rightarrow> (None, s2)
                | (Some err, s2) \<Rightarrow>
                    if IsAccessDenied err
                    then
                      (case sys (Call_ClearSystem path) (ClearSystem api path) s2 of
                         (Some err, s3) \<Rightarrow>
                           (Some (Errorf ''failed to decrypt file: failed to clear system flag: %s : %v''
                                    [path] err), s3)
                       | (None, s3) \<Rightarrow>
                           (case decryptFile api pathPointer s3 of
                              (Some err, s4) \<Rightarrow>
                                (Some (Errorf ''failed to decrypt file: %s : %v'' [path] err), s4)
                            | (None, s4) \<Rightarrow> (None, s4)))
                    else (Some (Errorf ''failed to decrypt file: %s : %v'' [path] err), s2))
             else (None, s1)))"

text \<open>
  \<open>handleFileAttributes\<close>. \<open>binary.LittleEndian.Uint32(data)\<close> comes first and panics
  on a value of fewer than four bytes. The error of \<open>fixEncryptionAttribute\<close> goes to the
  debug log; the result is that of \<open>syscall.SetFileAttributes\<close>.
\<close>

definition handleFileAttributes ::
  "'w winapi \<Rightarrow> string \<Rightarrow> byte list \<Rightarrow> 'w state \<Rightarrow> error option go \<times> 'w state" where
  "handleFileAttributes api path data s =
     (case Uint32 data of
        None \<Rightarrow> (Panics, s)
      | Some attrs \<Rightarrow>
          (case UTF16PtrFromString path of
             Inl err \<Rightarrow> (Returns (Some err), s)
           | Inr pathPointer \<Rightarrow>
               (case fixEncryptionAttribute api path attrs pathPointer s of
                  (err, s1) \<Rightarrow>
                    (let s2 = (if err \<noteq> None
                               then debug_Log ''Could not change encryption attribute for path: %s: %v''
                                      [path] err s1
                               else s1)
                     in case sys (Call_SetFileAttributes pathPointer attrs)
                               (SetFileAttributes api pathPointer attrs) s2 of
                          (r, s3) \<Rightarrow> (Returns r, s3)))))"

text \<open>
  The deferred function of \<open>handleCreationTime\<close>: close the handle, log a failure.
\<close>

definition closeHandle :: "'w winapi \<Rightarrow> string \<Rightarrow> nat \<Rightarrow> 'w state \<Rightarrow> 'w state" where
  "closeHandle api path handle s =
     (case sys (Call_CloseHandle handle) (CloseHandle api handle) s of
        (Some err, s1) \<Rightarrow> debug_Log ''Error closing file handle for %s: %v'' [path] (Some err) s1
      | (None, s1) \<Rightarrow> s1)"

text \<open>
  \<open>handleCreationTime\<close>. Its argument \<open>data\<close> is a slice: the bytes \<open>data\<close> and
  the spare bytes \<open>spare\<close> of its backing array. The slice expressions \<open>data[0:4]\<close>
  and \<open>data[4:8]\<close> are checked against the capacity, so they panic exactly when the
  capacity is less than eight, and they read the first eight bytes of the backing array.
  The handle is open by then and the deferred function closes it.
\<close>

definition handleCreationTime ::
  "'w winapi \<Rightarrow> string \<Rightarrow> byte list \<Rightarrow> byte list \<Rightarrow> 'w state
     \<Rightarrow> error option go \<times> 'w state" where
  "handleCreationTime api path data spare s =
     (case UTF16PtrFromString path of
        Inl err \<Rightarrow> (Returns (Some err), s)
      | Inr pathPointer \<Rightarrow>
          (case sys (Call_CreateFile pathPointer) (CreateFile api pathPointer) s of
             (Inl err, s1) \<Rightarrow> (Returns (Some err), s1)
           | (Inr handle, s1) \<Rightarrow>
               if length data + length spare < 8 then (Panics, closeHandle api path handle s1)
               else
                 (let creationTime = \<lparr>LowDateTime = le_uint32 (take 4 (data @ spare)),
                                      HighDateTime = le_uint32 (take 4 (drop 4 (data @ spare)))\<rparr>
                  in case sys (Call_SetFileTime handle creationTime)
                            (SetFileTime api handle creationTime) s1 of
                       (r, s2) \<Rightarrow> (Returns r, closeHandle api path handle s2))))"

definition handleSecurityDescriptor ::
  "'w winapi \<Rightarrow> string \<Rightarrow> byte list \<Rightarrow> 'w state \<Rightarrow> error option go \<times> 'w state" where
  "handleSecurityDescriptor api path data s =
     (case sys (Call_SetFileSecurityDescriptor path (string_of_bytes data))
             (SetFileSecurityDescriptor api path (string_of_bytes data)) s of
        (r, s1) \<Rightarrow> (Returns r, s1))"

text \<open>\<open>restoreGenericAttribute\<close>: a switch on the name of the attribute.\<close>

definition restoreGenericAttribute ::
  "'w winapi \<Rightarrow> Attribute \<Rightarrow> string \<Rightarrow> 'w state \<Rightarrow> error option go \<times> 'w state" where
  "restoreGenericAttribute api attr path s =
     (if attr_Name attr = TypeFileAttribute then handleFileAttributes api path (attr_Value attr) s
      else if attr_Name attr = TypeCreationTime then handleCreationTime api path (attr_Value attr) (attr_Spare attr) s
      else if attr_Name attr = TypeSecurityDescriptor
      then handleSecurityDescriptor api path (attr_Value attr) s
      else (Returns None, handleUnknownGenericAttributeFound (attr_Name attr) s))"

text \<open>
  \<open>restoreGenericAttributes\<close>: every attribute in turn; a failure is wrapped and
  appended to \<open>errs\<close>; a panic of a handler ends the function.
\<close>

fun restoreGenericAttributes_loop ::
  "'w winapi \<Rightarrow> string \<Rightarrow> Attribute list \<Rightarrow> error list \<Rightarrow> 'w state
     \<Rightarrow> error list go \<times> 'w state" where
  "restoreGenericAttributes_loop api path [] errs s = (Returns errs, s)"
| "restoreGenericAttributes_loop api path (attr # rest) errs s =
     (case restoreGenericAttribute api attr path s of
        (Panics, s1) \<Rightarrow> (Panics, s1)
      | (Returns None, s1) \<Rightarrow> restoreGenericAttributes_loop api path rest errs s1
      | (Returns (Some errGen), s1) \<Rightarrow>
          restoreGenericAttributes_loop api path rest
            (errs @ [Errorf ''error restoring generic attribute for: %s : %v'' [path] errGen]) s1)"

definition restoreGenericAttributes ::
  "'w winapi \<Rightarrow> Node \<Rightarrow> string \<Rightarrow> 'w state \<Rightarrow> error option go \<times> 'w state" where
  "restoreGenericAttributes api node path s =
     (case restoreGenericAttributes_loop api path (GenericAttributes node) [] s of
        (Panics, s1) \<Rightarrow> (Panics, s1)
      | (Returns errs, s1) \<Rightarrow> (Returns (CombineErrors errs), s1))"

section \<open>internal/restic/node\_windows.go: capturing generic attributes\<close>

definition appendGenericAttribute :: "Node \<Rightarrow> Attribute \<Rightarrow> Node" where
  "appendGenericAttribute node genericAttribute =
     (if attr_Name genericAttribute \<noteq> ''''
      then node\<lparr>GenericAttributes := GenericAttributes node @ [genericAttribute]\<rparr>
      else node)"

definition UInt32ToBytes :: "uint32 \<Rightarrow> byte list" where
  "UInt32ToBytes v = PutUint32 v"

definition getFileAttributes :: "uint32 \<Rightarrow> Attribute" where
  "getFileAttributes fileattr =
     (let fileAttrData = UInt32ToBytes fileattr
      in NewGenericAttribute TypeFileAttribute fileAttrData)"

text \<open>The zero value of \<open>Attribute\<close>, which a named result holds until it is assigned.\<close>

definition zeroAttribute :: Attribute where
  "zeroAttribute = \<lparr>attr_Name = '''', attr_Value = [], attr_Spare = []\<rparr>"

definition GetCreationTime :: "FileInfo \<Rightarrow> string \<Rightarrow> 'w state \<Rightarrow> Attribute \<times> 'w state" where
  "GetCreationTime fi path s =
     (case Sys fi of
        Some attrib \<Rightarrow>
          (NewGenericAttribute TypeCreationTime
             (PutUint32 (LowDateTime (CreationTime attrib))
                @ PutUint32 (HighDateTime (CreationTime attrib))), s)
      | None \<Rightarrow> (zeroAttribute, debug_Log ''Could not get create time for path: %s'' [path] None s))"

definition getSecurityDescriptor ::
  "'w winapi \<Rightarrow> string \<Rightarrow> 'w state \<Rightarrow> (Attribute \<times> error option) \<times> 'w state" where
  "getSecurityDescriptor api path s =
     (case sys (Call_GetFileSecurityDescriptor path) (GetFileSecurityDescriptor api path) s of
        (Inl err, s1) \<Rightarrow>
          (let err' = Errorf ''Error getting file SecurityDescriptor for: %s : %v'' [path] err
           in ((zeroAttribute, Some err'), debug_Log ''%v'' [] (Some err') s1))
      | (Inr sd, s1) \<Rightarrow>
          if sd \<noteq> ''''
          then ((NewGenericAttribute TypeSecurityDescriptor (bytes_of_string sd), None), s1)
          else ((zeroAttribute, None), s1))"

text \<open>
  \<open>fillGenericAttributes\<close> returns \<open>(allowExtended, err)\<close> and changes the node. The
  named result \<open>err\<close> is nil from the start and is never assigned: the \<open>err\<close> of
  \<open>sd, err := getSecurityDescriptor(path)\<close> is a new variable of the inner block. The
  separator of Windows paths is the backslash, the character \<open>0x5C\<close>.
\<close>

definition fillGenericAttributes ::
  "'w winapi \<Rightarrow> Node \<Rightarrow> string \<Rightarrow> FileInfo \<Rightarrow> statT \<Rightarrow> 'w state
     \<Rightarrow> (bool \<times> error option) \<times> Node \<times> 'w state" where
  "fillGenericAttributes api node path fi stat s =
     (let err = None
      in if strings_Contains (filepath_Base api path) '':''
         then ((False, None), node, s)
         else
           (case (if \<not> strings_HasSuffix (filepath_Clean api path) [CHR 0x5C]
                  then (case GetCreationTime fi path s of
                          (creationTime, s1) \<Rightarrow>
                            (appendGenericAttribute
                               (appendGenericAttribute node (getFileAttributes (FileAttributes stat)))
                               creationTime, s1))
                  else (node, s)) of
              (node1, s1) \<Rightarrow>
                (case (if Type node1 = ''file'' \<or> Type node1 = ''dir''
                       then (case getSecurityDescriptor api path s1 of
                               ((sd, None), s2) \<Rightarrow> (appendGenericAttribute node1 sd, s2)
                             | ((sd, Some err'), s2) \<Rightarrow> (node1, s2))
                       else (node1, s1)) of
                   (node2, s2) \<Rightarrow> ((True, err), node2, s2))))"

text \<open>
  A name for stating what \<open>fillGenericAttributes\<close> has appended to the node before it
  asks for the security descriptor; not a function of the source.
\<close>

definition captured_before_descriptor :: "'w winapi \<Rightarrow> string \<Rightarrow> FileInfo \<Rightarrow> statT \<Rightarrow> Attribute list" where
  "captured_before_descriptor api path fi stat =
     (if strings_HasSuffix (filepath_Clean api path) [CHR 0x5C] then []
      else NewGenericAttribute TypeFileAttribute (PutUint32 (FileAttributes stat))
           # (case Sys fi of
                Some attrib \<Rightarrow>
                  [NewGenericAttribute TypeCreationTime
                     (PutUint32 (LowDateTime (CreationTime attrib))
                        @ PutUint32 (HighDateTime (CreationTime attrib)))]
              | None \<Rightarrow> []))"

section \<open>The older Windows variant (the second file of src/unnamed/part\_002)\<close>

text \<open>
  The sources hold a second implementation of the same functions for Windows. Its
  functions carry the suffix \<open>_part002\<close>. It knows two types of generic attributes only,
  restores the attribute bits without any fix of the encryption state, and keeps one error.
\<close>

definition handleFileAttributes_part002 ::
  "'w winapi \<Rightarrow> string \<Rightarrow> byte list \<Rightarrow> 'w state \<Rightarrow> error option go \<times> 'w state" where
  "handleFileAttributes_part002 api path data s =
     (case Uint32 data of
        None \<Rightarrow> (Panics, s)
      | Some attrs \<Rightarrow>
          (case UTF16PtrFromString path of
             Inl err \<Rightarrow> (Returns (Some err), s)
           | Inr pathPointer \<Rightarrow>
               (case sys (Call_SetFileAttributes pathPointer attrs)
                       (SetFileAttributes api pathPointer attrs) s of
                  (r, s1) \<Rightarrow> (Returns r, s1))))"

definition handleCreationTime_part002 ::
  "'w winapi \<Rightarrow> string \<Rightarrow> byte list \<Rightarrow> byte list \<Rightarrow> 'w state
     \<Rightarrow> error option go \<times> 'w state" where
  "handleCreationTime_part002 api path data spare s =
     (case UTF16PtrFromString path of
        Inl err \<Rightarrow> (Returns (Some err), s)
      | Inr pathPointer \<Rightarrow>
          (case sys (Call_CreateFile pathPointer) (CreateFile api pathPointer) s of
             (Inl err, s1) \<Rightarrow> (Returns (Some err), s1)
           | (Inr handle, s1) \<Rightarrow>
               if length data + length spare < 8 then (Panics, closeHandle api path handle s1)
               else
                 (let creationTime = \<lparr>LowDateTime = le_uint32 (take 4 (data @ spare)),
                                      HighDateTime = le_uint32 (take 4 (drop 4 (data @ spare)))\<rparr>
                  in case sys (Call_SetFileTime handle creationTime)
                            (SetFileTime api handle creationTime) s1 of
                       (Some err, s2) \<Rightarrow> (Returns (Some err), closeHandle api path handle s2)
                     | (None, s2) \<Rightarrow> (Returns None, closeHandle api path handle s2))))"

definition restoreGenericAttribute_part002 ::
  "'w winapi \<Rightarrow> Attribute \<Rightarrow> string \<Rightarrow> 'w state \<Rightarrow> error option go \<times> 'w state" where
  "restoreGenericAttribute_part002 api attr path s =
     (if attr_Name attr = TypeFileAttribute
      then handleFileAttributes_part002 api path (attr_Value attr) s
      else if attr_Name attr = TypeCreationTime
      then handleCreationTime_part002 api path (attr_Value attr) (attr_Spare attr) s
      else (Returns None, handleUnknownGenericAttributeFound (attr_Name attr) s))"

text \<open>
  \<open>restoreGenericAttributes\<close> of this variant: a failure overwrites the result
  \<open>err\<close> and is written to the debug log.
\<close>

fun restoreGenericAttributes_part002_loop ::
  "'w winapi \<Rightarrow> string \<Rightarrow> Attribute list \<Rightarrow> error option \<Rightarrow> 'w state
     \<Rightarrow> error option go \<times> 'w state" where
  "restoreGenericAttributes_part002_loop api path [] err s = (Returns err, s)"
| "restoreGenericAttributes_part002_loop api path (attr # rest) err s =
     (case restoreGenericAttribute_part002 api attr path s of
        (Panics, s1) \<Rightarrow> (Panics, s1)
      | (Returns None, s1) \<Rightarrow> restoreGenericAttributes_part002_loop api path rest err s1
      | (Returns (Some errGen), s1) \<Rightarrow>
          (let err' = Errorf ''Error restoring generic attribute for: %s : %v'' [path] errGen
           in restoreGenericAttributes_part002_loop api path rest (Some err')
                (debug_Log ''%v'' [] (Some err') s1)))"

definition restoreGenericAttributes_part002 ::
  "'w winapi \<Rightarrow> Node \<Rightarrow> string \<Rightarrow> 'w state \<Rightarrow> error option go \<times> 'w state" where
  "restoreGenericAttributes_part002 api node path s =
     restoreGenericAttributes_part002_loop api path (GenericAttributes node) None s"

text \<open>
  \<open>fillGenericAttributes\<close> of this variant: one test for both kinds of pseudo-path.
\<close>

definition fillGenericAttributes_part002 ::
  "'w winapi \<Rightarrow> Node \<Rightarrow> string \<Rightarrow> FileInfo \<Rightarrow> statT \<Rightarrow> 'w state
     \<Rightarrow> (bool \<times> error option) \<times> Node \<times> 'w state" where
  "fillGenericAttributes_part002 api node path fi stat s =
     (let err = None
      in if strings_Contains (filepath_Base api path) '':''
            \<or> strings_HasSuffix (filepath_Clean api path) [CHR 0x5C]
         then ((False, None), node, s)
         else
           (case GetCreationTime fi path s of
              (creationTime, s1) \<Rightarrow>
                ((True, err),
                 appendGenericAttribute
                   (appendGenericAttribute node (getFileAttributes (FileAttributes stat)))
                   creationTime,
                 s1)))"

section \<open>Platforms without generic attributes (src/unnamed/part\_000)\<close>

text \<open>
  \<open>restoreGenericAttributes\<close> of the platforms that know no generic attribute: every
  attribute is reported as unknown, and the result is nil.
\<close>

fun restoreGenericAttributes_part000_loop :: "Attribute list \<Rightarrow> 'w state \<Rightarrow> 'w state" where
  "restoreGenericAttributes_part000_loop [] s = s"
| "restoreGenericAttributes_part000_loop (attr # rest) s =
     restoreGenericAttributes_part000_loop rest
       (handleUnknownGenericAttributeFound (attr_Name attr) s)"

definition restoreGenericAttributes_part000 ::
  "Node \<Rightarrow> string \<Rightarrow> 'w state \<Rightarrow> error option \<times> 'w state" where
  "restoreGenericAttributes_part000 node path s =
     (None, restoreGenericAttributes_part000_loop (GenericAttributes node) s)"

section \<open>A small Windows system for trying the functions out\<close>

text \<open>
  None of this is in the sources. The system holds one file: its attribute bits, its
  creation time and its security descriptor. \<open>sim_denied\<close> counts the calls of
  \<open>EncryptFileW\<close> and \<open>DecryptFileW\<close> still to be refused with \<open>ERROR_ACCESS_DENIED\<close>;
  the other fields fix the errors, if any, of the remaining calls.
\<close>

record simfs =
  sim_attrs :: uint32
  sim_creation :: Filetime
  sim_descriptor :: string
  sim_denied :: nat
  sim_setattr_err :: "error option"
  sim_createfile_err :: "error option"
  sim_getsd_err :: "error option"

text \<open>
  \<open>filepath.Base\<close> for a path with a drive letter and backslashes, after the library's
  algorithm:
  strip the trailing separators, drop the volume name, keep what follows the last
  separator, and give a single separator for an empty rest. \<open>filepath.Clean\<close> is taken
  at paths that are clean already.
\<close>

definition sim_Base :: "string \<Rightarrow> string" where
  "sim_Base path =
     (if path = '''' then ''.''
      else
        (let stripped = rev (dropWhile (\<lambda>c. c = CHR 0x5C) (rev path));
             novolume = (if 2 \<le> length stripped \<and> stripped ! 1 = CHR '':'' then drop 2 stripped
                         else stripped);
             element = rev (takeWhile (\<lambda>c. c \<noteq> CHR 0x5C) (rev novolume))
         in if element = '''' then [CHR 0x5C] else element))"

definition sim_winapi :: "simfs winapi" where
  "sim_winapi =
     \<lparr>filepath_Base = sim_Base,
      filepath_Clean = (\<lambda>path. path),
      EncryptFileW = (\<lambda>p w. if 0 < sim_denied w
                              then (Some (Errno ERROR_ACCESS_DENIED), w\<lparr>sim_denied := sim_denied w - 1\<rparr>)
                              else (None, w\<lparr>sim_attrs := sim_attrs w OR FILE_ATTRIBUTE_ENCRYPTED\<rparr>)),
      DecryptFileW = (\<lambda>p w. if 0 < sim_denied w
                              then (Some (Errno ERROR_ACCESS_DENIED), w\<lparr>sim_denied := sim_denied w - 1\<rparr>)
                              else (None, w\<lparr>sim_attrs := sim_attrs w AND NOT FILE_ATTRIBUTE_ENCRYPTED\<rparr>)),
      ClearSystem = (\<lambda>p w. (None, w\<lparr>sim_attrs := sim_attrs w AND NOT FILE_ATTRIBUTE_SYSTEM\<rparr>)),
      GetFileAttributes = (\<lambda>p w. (Inr (sim_attrs w), w)),
      SetFileAttributes = (\<lambda>p a w. case sim_setattr_err w of
                                       Some e \<Rightarrow> (Some e, w)
                                     | None \<Rightarrow> (None, w\<lparr>sim_attrs :=
                                         (a AND NOT FILE_ATTRIBUTE_ENCRYPTED)
                                           OR (sim_attrs w AND FILE_ATTRIBUTE_ENCRYPTED)\<rparr>)),
      CreateFile = (\<lambda>p w. case sim_createfile_err w of
                             Some e \<Rightarrow> (Inl e, w)
                           | None \<Rightarrow> (Inr 1, w)),
      CloseHandle = (\<lambda>h w. (None, w)),
      SetFileTime = (\<lambda>h t w. (None, w\<lparr>sim_creation := t\<rparr>)),
      GetFileSecurityDescriptor = (\<lambda>p w. case sim_getsd_err w of
                                            Some e \<Rightarrow> (Inl e, w)
                                          | None \<Rightarrow> (Inr (sim_descriptor w), w)),
      SetFileSecurityDescriptor = (\<lambda>p sd w. (None, w\<lparr>sim_descriptor := sd\<rparr>))\<rparr>"

definition sim_file :: simfs where
  "sim_file =
     \<lparr>sim_attrs = 0x20,
      sim_creation = \<lparr>LowDateTime = 0, HighDateTime = 0\<rparr>,
      sim_descriptor = ''O:BAG:BA'',
      sim_denied = 0,
      sim_setattr_err = None,
      sim_createfile_err = None,
      sim_getsd_err = None\<rparr>"

definition start :: "'w \<Rightarrow> 'w state" where
  "start w = \<lparr>world = w, calls = [], debugLog = [], unknownAttributeTypes = {}, diagnostics = []\<rparr>"

section \<open>Names for stating the behaviour of the restore loops\<close>

text \<open>
  None of these is a function of the source. \<open>run_handlers h onFailure attrs s\<close> is
  what the spec asks of a restore loop: the handler \<open>h\<close> is tried on every attribute in
  turn, whatever the earlier ones returned, each in the state its predecessors left
  (after \<open>onFailure\<close>, when the predecessor failed); the results are collected next to
  the final state. \<open>failures\<close> keeps the errors among the results. An attribute is
  \<open>wellformed\<close> when its value is long enough for its handler to decode it without a
  panic.
\<close>

fun failures :: "error option go list \<Rightarrow> error list" where
  "failures [] = []"
| "failures (Returns (Some e) # rs) = e # failures rs"
| "failures (r # rs) = failures rs"

fun run_handlers ::
  "(Attribute \<Rightarrow> 'w state \<Rightarrow> error option go \<times> 'w state) \<Rightarrow> (error \<Rightarrow> 'w state \<Rightarrow> 'w state)
     \<Rightarrow> Attribute list \<Rightarrow> 'w state \<Rightarrow> error option go list \<times> 'w state" where
  "run_handlers h onFailure [] s = ([], s)"
| "run_handlers h onFailure (attr # rest) s =
     (case h attr s of
        (r, s1) \<Rightarrow>
          (case run_handlers h onFailure rest
                  (case r of Returns (Some e) \<Rightarrow> onFailure e s1 | _ \<Rightarrow> s1) of
             (rs, s2) \<Rightarrow> (r # rs, s2)))"

definition wellformed :: "Attribute \<Rightarrow> bool" where
  "wellformed attr =
     ((attr_Name attr = TypeFileAttribute \<longrightarrow> 4 \<le> length (attr_Value attr))
      \<and> (attr_Name attr = TypeCreationTime \<longrightarrow> 8 \<le> length (attr_Value attr)))"

text \<open>
  What the spec asks of a run over attributes that are all of unknown types, again not a
  function of the source: every name is in the set of unknown types afterwards, and the
  names that were not in the set before are reported once each, in the order in which
  they are first met (\<open>newly_reported\<close>); nothing else changes.
\<close>

fun newly_reported :: "string set \<Rightarrow> string list \<Rightarrow> string list" where
  "newly_reported known [] = []"
| "newly_reported known (t # ts) =
     (if t \<in> known then newly_reported known ts
      else t # newly_reported (insert t known) ts)"

definition all_reported :: "Attribute list \<Rightarrow> 'w state \<Rightarrow> 'w state" where
  "all_reported attrs s =
     s\<lparr>unknownAttributeTypes := unknownAttributeTypes s \<union> attr_Name ` set attrs,
       diagnostics := diagnostics s @ newly_reported (unknownAttributeTypes s) (map attr_Name attrs)\<rparr>"

definition wrapped :: "string \<Rightarrow> error \<Rightarrow> error" where
  "wrapped path errGen = Errorf ''error restoring generic attribute for: %s : %v'' [path] errGen"

definition wrapped_part002 :: "string \<Rightarrow> error \<Rightarrow> error" where
  "wrapped_part002 path errGen = Errorf ''Error restoring generic attribute for: %s : %v'' [path] errGen"

definition attempted ::
  "'w winapi \<Rightarrow> string \<Rightarrow> Attribute list \<Rightarrow> 'w state \<Rightarrow> error option go list \<times> 'w state" where
  "attempted api path attrs s =
     run_handlers (\<lambda>attr. restoreGenericAttribute api attr path) (\<lambda>e s. s) attrs s"

definition attempted_part002 ::
  "'w winapi \<Rightarrow> string \<Rightarrow> Attribute list \<Rightarrow> 'w state \<Rightarrow> error option go list \<times> 'w state" where
  "attempted_part002 api path attrs s =
     run_handlers (\<lambda>attr. restoreGenericAttribute_part002 api attr path)
       (\<lambda>e. debug_Log ''%v'' [] (Some (wrapped_part002 path e))) attrs s"

text \<open>
  A node with two attributes whose handlers fail in the system \<open>failing_file\<close>, where
  setting the attribute bits is refused (error 5) and the file cannot be opened for its
  creation time (error 32), and an attribute of an unknown type between them.
\<close>

definition two_failures :: Node where
  "two_failures =
     \<lparr>Type = ''file'', ExtendedAttributes = [],
      GenericAttributes =
        [\<lparr>attr_Name = TypeFileAttribute, attr_Value = [0x20, 0, 0, 0], attr_Spare = []\<rparr>,
         \<lparr>attr_Name = ''vendor.experimental'', attr_Value = [1], attr_Spare = []\<rparr>,
         \<lparr>attr_Name = TypeCreationTime, attr_Value = [4, 3, 2, 1, 8, 7, 6, 5], attr_Spare = []\<rparr>]\<rparr>"

definition failing_file :: simfs where
  "failing_file = sim_file\<lparr>sim_setattr_err := Some (Errno 5), sim_createfile_err := Some (Errno 32)\<rparr>"

section \<open>Properties of the EA codec\<close>

lemma string_of_bytes_of_string: "string_of_bytes (bytes_of_string s) = s"
proof -
  have "char_of (unat (of_nat (of_char c) :: byte)) = c" for c :: char
  proof -
    have "(of_char c :: nat) < 256" by (rule nat_of_char_less_256)
    then have "unat (of_nat (of_char c) :: byte) = of_char c"
      by (simp add: unat_of_nat)
    then show ?thesis by simp
  qed
  then show ?thesis
    by (simp add: string_of_bytes_def bytes_of_string_def comp_def)
qed

lemma le_uint32_PutUint32: "le_uint32 (PutUint32 w @ rest) = w"
  unfolding le_uint32_def PutUint32_def
  apply simp
  apply (rule bit_word_eqI)
  apply (simp add: bit_simps)
  apply (rule iffI)
  apply auto[1]
  apply (subgoal_tac "n < 8 \<or> (8 \<le> n \<and> n < 16) \<or> (16 \<le> n \<and> n < 24) \<or> 24 \<le> n")
  apply auto
  done

lemma le_uint16_PutUint16: "le_uint16 (PutUint16 w @ rest) = w"
  unfolding le_uint16_def PutUint16_def
  apply simp
  apply (rule bit_word_eqI)
  apply (simp add: bit_simps)
  apply (rule iffI)
  apply auto[1]
  apply (subgoal_tac "n < 8 \<or> (8 \<le> n \<and> n < 16)")
  apply auto
  done

lemma and_not_3: "(x :: uint32) AND NOT 3 = x - (x AND 3)"
proof -
  have "x - (x AND 3) = x AND NOT (x AND 3)"
    by (rule disjunctive_diff_eq_and_not) (auto simp: bit_eq_iff bit_simps)
  also have "\<dots> = x AND NOT 3"
    by (auto simp: bit_eq_iff bit_simps)
  finally show ?thesis by simp
qed

lemma and_3_le: "unat ((x :: uint32) AND 3) \<le> 3"
proof -
  have "x AND 3 \<le> 3" by (rule word_and_le1)
  then show ?thesis by (simp add: word_le_nat_alt)
qed

lemma and_3_le_self: "unat ((x :: uint32) AND 3) \<le> unat x"
proof -
  have "x AND 3 \<le> x" by (rule word_and_le2)
  then show ?thesis by (simp add: word_le_nat_alt)
qed

lemma padded:
  assumes "n \<le> 100000"
  shows "unat (((of_nat n :: uint32) + 3) AND NOT 3) = n + unat ((((of_nat n :: uint32) + 3) AND NOT 3) - of_nat n)"
    and "unat ((((of_nat n :: uint32) + 3) AND NOT 3) - of_nat n) \<le> 3"
proof -
  let ?e = "of_nat n :: uint32"
  let ?x = "?e + 3"
  have e: "unat ?e = n" using assms by (simp add: unat_of_nat)
  have x: "unat ?x = n + 3" using assms e by (simp add: unat_word_ariths)
  have le: "?x AND 3 \<le> ?x" by (rule word_and_le2)
  have "unat (?x AND NOT 3) = unat (?x - (?x AND 3))"
    by (simp only: and_not_3 [symmetric])
  also have "\<dots> = unat ?x - unat (?x AND 3)"
    using le by (rule unat_sub)
  finally have w: "unat (?x AND NOT 3) = n + 3 - unat (?x AND 3)"
    by (simp only: x)
  have k: "unat (?x AND 3) \<le> 3" by (rule and_3_le)
  have ge: "?e \<le> ?x AND NOT 3"
    using w k e by (simp add: word_le_nat_alt)
  have d: "unat ((?x AND NOT 3) - ?e) = unat (?x AND NOT 3) - n"
    using ge e by (simp add: unat_sub)
  show "unat (?x AND NOT 3) = n + unat ((?x AND NOT 3) - ?e)"
    using d w k by simp
  show "unat ((?x AND NOT 3) - ?e) \<le> 3"
    using d w by simp
qed

lemma writeEa_padding_le_3:
  assumes "length (Name ea) \<le> 255" and "length (Value ea) \<le> 65535"
  shows "unat ((((of_nat (fileFullEaInformationSize + length (Name ea) + 1 + length (Value ea))
                   :: uint32) + 3) AND NOT 3)
               - of_nat (fileFullEaInformationSize + length (Name ea) + 1 + length (Value ea)))
         \<le> 3"
proof -
  have "fileFullEaInformationSize + length (Name ea) + 1 + length (Value ea) \<le> 100000"
    using assms by (simp add: fileFullEaInformationSize_def)
  then show ?thesis by (rule padded(2))
qed

lemma length_binary_Write_info: "length (binary_Write_info info) = 8"
  by (simp add: binary_Write_info_def PutUint32_def PutUint16_def)

lemma binary_Read_Write_info: "binary_Read_info (binary_Write_info info @ rest) = Some info"
proof -
  have a: "le_uint32 (take 4 (binary_Write_info info @ rest)) = NextEntryOffset info"
    using le_uint32_PutUint32 [of "NextEntryOffset info" "[]"]
    by (simp add: binary_Write_info_def PutUint32_def)
  have b: "le_uint16 (take 2 (drop 6 (binary_Write_info info @ rest))) = ValueLength info"
    using le_uint16_PutUint16 [of "ValueLength info" "[]"]
    by (simp add: binary_Write_info_def PutUint32_def PutUint16_def)
  have c: "(binary_Write_info info @ rest) ! 4 = info_Flags info"
    by (simp add: binary_Write_info_def PutUint32_def)
  have d: "(binary_Write_info info @ rest) ! 5 = NameLength info"
    by (simp add: binary_Write_info_def PutUint32_def)
  show ?thesis
    unfolding binary_Read_info_def
    by (simp only: a b c d) (simp add: length_binary_Write_info)
qed

lemma writeEa_valid:
  assumes "length (Name ea) \<le> 255" and "length (Value ea) \<le> 65535"
  shows "writeEa buf ea isLast = Inr (buf @ ea_record ea isLast)"
  using assms by (simp add: writeEa_def ea_record_def Let_def unat_of_nat)

lemma parseEa_ea_record:
  assumes n: "length (Name ea) \<le> 255" and v: "length (Value ea) \<le> 65535"
  shows "parseEa (ea_record ea isLast @ rest) = Inr (ea, if isLast then [] else rest)"
proof -
  define m where "m = 8 + length (Name ea) + 1 + length (Value ea)"
  define e :: uint32 where "e = of_nat m"
  define wp where "wp = (e + 3) AND NOT 3"
  define info where "info = \<lparr>NextEntryOffset = (if \<not> isLast then wp else 0),
                     info_Flags = Flags ea,
                     NameLength = of_nat (length (Name ea)),
                     ValueLength = of_nat (length (Value ea))\<rparr>"
  define body where "body = bytes_of_string (Name ea) @ [0] @ Value ea @ take (unat (wp - e)) [0, 0, 0]"
  have m: "m \<le> 100000" using n v by (simp add: m_def)
  have pad: "unat (wp - e) \<le> 3" and wp: "unat wp = m + unat (wp - e)"
    using padded [OF m] by (simp_all add: wp_def e_def)
  have rec: "ea_record ea isLast = binary_Write_info info @ body"
    by (simp add: ea_record_def Let_def fileFullEaInformationSize_def info_def body_def wp_def e_def m_def)
  have lb: "length body = length (Name ea) + 1 + length (Value ea) + unat (wp - e)"
    using pad by (simp add: body_def bytes_of_string_def)
  have lw: "unat wp = 8 + length body" using wp lb by (simp add: m_def)
  have nl: "unat (NameLength info) = length (Name ea)"
    using n by (simp add: info_def unat_of_nat)
  have vl: "unat (ValueLength info) = length (Value ea)"
    using v by (simp add: info_def unat_of_nat)
  have wp0: "wp \<noteq> 0" using lw by (auto simp: unat_eq_0 [symmetric])
  have nx: "unat (NextEntryOffset info) \<le> 8 + length body"
    using lw by (simp add: info_def)
  have name: "string_of_bytes (take (length (Name ea)) body) = Name ea"
    by (simp add: body_def bytes_of_string_def [symmetric] string_of_bytes_of_string)
        (simp add: bytes_of_string_def string_of_bytes_of_string [unfolded bytes_of_string_def])
  have val: "take (length (Value ea)) (drop (Suc (length (Name ea))) body) = Value ea"
    by (simp add: body_def bytes_of_string_def)
  have rd: "binary_Read_info (binary_Write_info info @ body @ rest) = Some info"
    by (rule binary_Read_Write_info)
  show ?thesis
    unfolding rec parseEa_def
    using nx name val lb wp0 lw
    by (simp add: rd nl vl Let_def fileFullEaInformationSize_def length_binary_Write_info)
       (simp add: info_def)
qed

lemma ea_record_nonempty: "ea_record ea isLast \<noteq> []"
  by (simp add: ea_record_def Let_def binary_Write_info_def PutUint32_def)

lemma encode_decode_suffix:
  assumes valid: "\<forall>ea\<in>set eas. length (Name ea) \<le> 255 \<and> length (Value ea) \<le> 65535"
  shows "i \<le> length eas \<Longrightarrow>
         \<exists>out. (\<forall>buf. EncodeExtendedAttributes_loop eas [i..<length eas] buf = Inr (buf @ out))
             \<and> (\<forall>acc. DecodeExtendedAttributes_loop out acc = Inr (acc @ drop i eas))
             \<and> (i = length eas \<longrightarrow> out = [])"
proof (induction "length eas - i" arbitrary: i)
  case 0
  then have "i = length eas" by simp
  then show ?case
    by (auto simp: DecodeExtendedAttributes_loop.simps intro!: exI [of _ "[]"])
next
  case (Suc k)
  then have i: "i < length eas" and k: "k = length eas - Suc i" and si: "Suc i \<le> length eas"
    by simp_all
  from Suc.hyps(1) [OF k si] obtain out where
    enc: "\<And>buf. EncodeExtendedAttributes_loop eas [Suc i..<length eas] buf = Inr (buf @ out)" and
    dec: "\<And>acc. DecodeExtendedAttributes_loop out acc = Inr (acc @ drop (Suc i) eas)" and
    emp: "Suc i = length eas \<longrightarrow> out = []"
    by blast
  let ?ea = "eas ! i"
  let ?l = "Suc i = length eas"
  have v: "length (Name ?ea) \<le> 255" "length (Value ?ea) \<le> 65535"
    using valid i by simp_all
  have upt: "[i..<length eas] = i # [Suc i..<length eas]"
    using i by (simp add: upt_conv_Cons)
  have l: "(int i = int (length eas) - 1) = ?l" using i by auto
  have e: "EncodeExtendedAttributes_loop eas [i..<length eas] buf = Inr (buf @ ea_record ?ea ?l @ out)" for buf
    by (simp add: upt l writeEa_valid [OF v] enc)
  have p: "parseEa (ea_record ?ea ?l @ out) = Inr (?ea, out)"
    using emp by (simp add: parseEa_ea_record [OF v])
  have d: "DecodeExtendedAttributes_loop (ea_record ?ea ?l @ out) acc = Inr (acc @ drop i eas)" for acc
    by (subst DecodeExtendedAttributes_loop.simps)
       (simp add: ea_record_nonempty p dec Cons_nth_drop_Suc [OF i])
  show ?case
    using e d i by (intro exI [of _ "ea_record ?ea ?l @ out"]) simp
qed

text \<open>
  Claim C1 (codec inverse). For every list of extended attributes in which each name has
  at most 255 bytes and each value at most 65535 bytes, \<open>EncodeExtendedAttributes\<close>
  succeeds, and \<open>DecodeExtendedAttributes\<close> applied to the buffer it produced returns
  the original list: the same names, values and flags, in the same order.
\<close>

theorem DecodeExtendedAttributes_EncodeExtendedAttributes:
  assumes "\<forall>ea\<in>set eas. length (Name ea) \<le> 255 \<and> length (Value ea) \<le> 65535"
  shows "\<exists>buf. EncodeExtendedAttributes eas = Inr buf \<and> DecodeExtendedAttributes buf = Inr eas"
  using encode_decode_suffix [OF assms, of 0]
  by (auto simp: EncodeExtendedAttributes_def DecodeExtendedAttributes_def)

text \<open>
  The theorem at a list of two attributes, with the buffer written out: a record of 20
  bytes that points to the next one, and a last record of 10 bytes padded to 12.
\<close>

theorem DecodeExtendedAttributes_EncodeExtendedAttributes_witness:
  "EncodeExtendedAttributes
     [\<lparr>Name = ''USER.FOO'', Value = [98, 97, 114], Flags = 0\<rparr>,
      \<lparr>Name = ''B'', Value = [], Flags = 128\<rparr>]
   = Inr [20, 0, 0, 0, 0, 8, 3, 0, 85, 83, 69, 82, 46, 70, 79, 79, 0, 98, 97, 114,
          0, 0, 0, 0, 128, 1, 0, 0, 66, 0, 0, 0]
   \<and> DecodeExtendedAttributes
     [20, 0, 0, 0, 0, 8, 3, 0, 85, 83, 69, 82, 46, 70, 79, 79, 0, 98, 97, 114,
      0, 0, 0, 0, 128, 1, 0, 0, 66, 0, 0, 0]
   = Inr [\<lparr>Name = ''USER.FOO'', Value = [98, 97, 114], Flags = 0\<rparr>,
          \<lparr>Name = ''B'', Value = [], Flags = 128\<rparr>]"
proof -
  let ?eas = "[\<lparr>Name = ''USER.FOO'', Value = [98, 97, 114], Flags = 0\<rparr>,
               \<lparr>Name = ''B'', Value = [], Flags = 128\<rparr>]"
  have enc: "EncodeExtendedAttributes ?eas
      = Inr [20, 0, 0, 0, 0, 8, 3, 0, 85, 83, 69, 82, 46, 70, 79, 79, 0, 98, 97, 114,
             0, 0, 0, 0, 128, 1, 0, 0, 66, 0, 0, 0]"
    by (simp add: EncodeExtendedAttributes_def writeEa_def Let_def upt_rec
        binary_Write_info_def PutUint32_def PutUint16_def bytes_of_string_def
        fileFullEaInformationSize_def)
  have "\<forall>ea\<in>set ?eas. length (Name ea) \<le> 255 \<and> length (Value ea) \<le> 65535"
    by simp
  from DecodeExtendedAttributes_EncodeExtendedAttributes [OF this] enc
  show ?thesis by simp
qed

lemma writeEa_name_too_large:
  assumes "255 < length (Name ea)"
  shows "writeEa buf ea isLast = Inl errEaNameTooLarge"
proof -
  have "length (Name ea) mod 256 < 256" by simp
  with assms have "length (Name ea) mod 256 \<noteq> length (Name ea)" by linarith
  then show ?thesis by (simp add: writeEa_def unat_of_nat)
qed

lemma writeEa_value_too_large:
  assumes "length (Name ea) \<le> 255" and "65535 < length (Value ea)"
  shows "writeEa buf ea isLast = Inl errEaValueTooLarge"
proof -
  have "length (Value ea) mod 65536 < 65536" by simp
  with assms have "length (Value ea) mod 65536 \<noteq> length (Value ea)" by linarith
  with assms(1) show ?thesis by (simp add: writeEa_def unat_of_nat)
qed

lemma encode_loop_first_failure:
  assumes j: "j < length eas"
    and fails: "\<And>buf isLast. writeEa buf (eas ! j) isLast = Inl e"
    and before: "\<forall>i<j. length (Name (eas ! i)) \<le> 255 \<and> length (Value (eas ! i)) \<le> 65535"
  shows "i \<le> j \<Longrightarrow> EncodeExtendedAttributes_loop eas [i..<length eas] buf = Inl e"
proof (induction "j - i" arbitrary: i buf)
  case 0
  then have "i = j" by simp
  with j show ?case by (simp add: upt_conv_Cons fails)
next
  case (Suc k)
  then have i: "i < j" and k: "k = j - Suc i" and si: "Suc i \<le> j" by simp_all
  from i j have upt: "[i..<length eas] = i # [Suc i..<length eas]"
    by (simp add: upt_conv_Cons)
  from before i have v: "length (Name (eas ! i)) \<le> 255" "length (Value (eas ! i)) \<le> 65535"
    by simp_all
  show ?case
    by (simp add: upt writeEa_valid [OF v] Suc.hyps(1) [OF k si])
qed

lemma EncodeExtendedAttributes_first_failure:
  assumes "j < length eas"
    and "\<forall>i<j. length (Name (eas ! i)) \<le> 255 \<and> length (Value (eas ! i)) \<le> 65535"
  shows "255 < length (Name (eas ! j)) \<Longrightarrow> EncodeExtendedAttributes eas = Inl errEaNameTooLarge"
    and "length (Name (eas ! j)) \<le> 255 \<Longrightarrow> 65535 < length (Value (eas ! j))
         \<Longrightarrow> EncodeExtendedAttributes eas = Inl errEaValueTooLarge"
  unfolding EncodeExtendedAttributes_def
  using assms
  by (auto intro!: encode_loop_first_failure [where j = j] writeEa_name_too_large writeEa_value_too_large)

lemma EncodeExtendedAttributes_oversize_fails:
  assumes "ea \<in> set eas" and "255 < length (Name ea) \<or> 65535 < length (Value ea)"
  shows "EncodeExtendedAttributes eas = Inl errEaNameTooLarge
         \<or> EncodeExtendedAttributes eas = Inl errEaValueTooLarge"
proof -
  let ?P = "\<lambda>k. k < length eas \<and> (255 < length (Name (eas ! k)) \<or> 65535 < length (Value (eas ! k)))"
  from assms obtain k where "?P k" by (auto simp: in_set_conv_nth)
  define j where "j = (LEAST k. ?P k)"
  have Pj: "?P j" unfolding j_def using \<open>?P k\<close> by (rule LeastI)
  have least: "\<not> ?P i" if "i < j" for i
    using that not_less_Least unfolding j_def by blast
  have before: "\<forall>i<j. length (Name (eas ! i)) \<le> 255 \<and> length (Value (eas ! i)) \<le> 65535"
  proof (intro allI impI)
    fix i assume "i < j"
    with least [of i] Pj show "length (Name (eas ! i)) \<le> 255 \<and> length (Value (eas ! i)) \<le> 65535"
      by auto
  qed
  from Pj have j: "j < length eas" by simp
  show ?thesis
  proof (cases "255 < length (Name (eas ! j))")
    case True
    then show ?thesis using EncodeExtendedAttributes_first_failure(1) [OF j before] by simp
  next
    case False
    with Pj have "length (Name (eas ! j)) \<le> 255" "65535 < length (Value (eas ! j))" by auto
    then show ?thesis using EncodeExtendedAttributes_first_failure(2) [OF j before] by simp
  qed
qed

text \<open>
  Claim C5 (codec rejection), as the code has it. Encoding stops at the first attribute,
  in the order of the list, that fails a size check, and within one attribute the name is
  checked before the value. So for an attribute at index \<open>j\<close> with only valid
  attributes before it: a name of 256 bytes gives the name-too-large error, and a value
  of 65536 bytes under a name of at most 255 bytes gives the value-too-large error. A
  list that holds a name of 256 bytes or a value of 65536 bytes anywhere never encodes:
  the result is one of the two errors, and an error comes without a buffer.
\<close>

theorem EncodeExtendedAttributes_rejects_oversize:
  "(j < length eas
      \<and> (\<forall>i<j. length (Name (eas ! i)) \<le> 255 \<and> length (Value (eas ! i)) \<le> 65535)
      \<and> length (Name (eas ! j)) = 256
     \<longrightarrow> EncodeExtendedAttributes eas = Inl errEaNameTooLarge)
   \<and> (j < length eas
      \<and> (\<forall>i<j. length (Name (eas ! i)) \<le> 255 \<and> length (Value (eas ! i)) \<le> 65535)
      \<and> length (Name (eas ! j)) \<le> 255 \<and> length (Value (eas ! j)) = 65536
     \<longrightarrow> EncodeExtendedAttributes eas = Inl errEaValueTooLarge)
   \<and> ((\<exists>ea\<in>set eas. length (Name ea) = 256 \<or> length (Value ea) = 65536)
     \<longrightarrow> EncodeExtendedAttributes eas = Inl errEaNameTooLarge
         \<or> EncodeExtendedAttributes eas = Inl errEaValueTooLarge)"
proof (intro conjI impI)
  assume "j < length eas
      \<and> (\<forall>i<j. length (Name (eas ! i)) \<le> 255 \<and> length (Value (eas ! i)) \<le> 65535)
      \<and> length (Name (eas ! j)) = 256"
  then show "EncodeExtendedAttributes eas = Inl errEaNameTooLarge"
    using EncodeExtendedAttributes_first_failure(1) [of j eas] by simp
next
  assume "j < length eas
      \<and> (\<forall>i<j. length (Name (eas ! i)) \<le> 255 \<and> length (Value (eas ! i)) \<le> 65535)
      \<and> length (Name (eas ! j)) \<le> 255 \<and> length (Value (eas ! j)) = 65536"
  then show "EncodeExtendedAttributes eas = Inl errEaValueTooLarge"
    using EncodeExtendedAttributes_first_failure(2) [of j eas] by simp
next
  assume "\<exists>ea\<in>set eas. length (Name ea) = 256 \<or> length (Value ea) = 65536"
  then obtain ea where "ea \<in> set eas" "255 < length (Name ea) \<or> 65535 < length (Value ea)"
    by auto
  then show "EncodeExtendedAttributes eas = Inl errEaNameTooLarge
         \<or> EncodeExtendedAttributes eas = Inl errEaValueTooLarge"
    by (rule EncodeExtendedAttributes_oversize_fails)
qed

text \<open>
  The theorem at two lists whose second attribute is the first to fail a check.
\<close>

theorem EncodeExtendedAttributes_rejects_oversize_witness:
  "EncodeExtendedAttributes
     [\<lparr>Name = ''A'', Value = [1], Flags = 0\<rparr>,
      \<lparr>Name = replicate 256 (CHR ''n''), Value = [], Flags = 0\<rparr>] = Inl errEaNameTooLarge
   \<and> EncodeExtendedAttributes
     [\<lparr>Name = ''A'', Value = [1], Flags = 0\<rparr>,
      \<lparr>Name = ''B'', Value = replicate 65536 0, Flags = 0\<rparr>] = Inl errEaValueTooLarge"
proof -
  let ?n = "[\<lparr>Name = ''A'', Value = [1], Flags = 0\<rparr>,
      \<lparr>Name = replicate 256 (CHR ''n''), Value = [], Flags = 0\<rparr>]"
  let ?v = "[\<lparr>Name = ''A'', Value = [1], Flags = 0\<rparr>,
      \<lparr>Name = ''B'', Value = replicate 65536 0, Flags = 0\<rparr>]"
  have "\<forall>i<Suc 0. length (Name (?n ! i)) \<le> 255 \<and> length (Value (?n ! i)) \<le> 65535" by simp
  moreover have "\<forall>i<Suc 0. length (Name (?v ! i)) \<le> 255 \<and> length (Value (?v ! i)) \<le> 65535" by simp
  ultimately show ?thesis
    using EncodeExtendedAttributes_rejects_oversize [of "Suc 0" ?n]
      EncodeExtendedAttributes_rejects_oversize [of "Suc 0" ?v]
    by simp
qed

text \<open>
  Claim C5 as stated asks for the value-too-large error whenever the list holds a value
  of 65536 bytes. An attribute with such a value and a name of 256 bytes is refused with
  the name-too-large error instead.
\<close>

theorem EncodeExtendedAttributes_value_error_counterexample:
  "length (Value \<lparr>Name = replicate 256 (CHR ''n''), Value = replicate 65536 0, Flags = 0\<rparr>) = 65536
   \<and> EncodeExtendedAttributes
        [\<lparr>Name = replicate 256 (CHR ''n''), Value = replicate 65536 0, Flags = 0\<rparr>]
      \<noteq> Inl errEaValueTooLarge"
  by (simp add: EncodeExtendedAttributes_def writeEa_def)

section \<open>Properties of GetFileEA\<close>



lemma GetFileEA_loop_returns_after_other_status:
  assumes "GetFileEA_loop api bufLen sizes w = Some y"
  shows "\<exists>n. \<not> insufficient api (status_at api n bufLen w)"
proof (rule GetFileEA_loop.raw_induct
    [where P = "\<lambda>api bufLen sizes w y. \<exists>n. \<not> insufficient api (status_at api n bufLen w)",
     OF _ assms], goal_cases)
  case (1 loop api bufLen sizes w y)
  obtain status written w' where q: "NtQueryEaFile api (of_nat bufLen) w = ((status, written), w')"
    by (metis surj_pair)
  show ?case
  proof (cases "insufficient api status")
    case False
    then have "\<not> insufficient api (status_at api 0 bufLen w)"
      by (simp add: status_at_def q)
    then show ?thesis by blast
  next
    case True
    with 1(2) have "loop api (bufLen * 2) (sizes @ [bufLen]) w' = Some y"
      by (auto simp: q insufficient_def Let_def)
    from 1(1) [OF this] obtain n where "\<not> insufficient api (status_at api n (bufLen * 2) w')"
      by blast
    then have "\<not> insufficient api (status_at api (Suc n) bufLen w)"
      by (simp add: status_at_def q mult.assoc)
    then show ?thesis by blast
  qed
qed

text \<open>
  The loop has no bound of its own: while every status means ``insufficient buffer'' or
  ``more data'', \<open>GetFileEA\<close> does not return.
\<close>

lemma GetFileEA_retries_forever:
  assumes "\<forall>n. insufficient api (status_at api n 1024 w)"
  shows "GetFileEA api w = None"
proof (cases "GetFileEA api w")
  case None
  then show ?thesis .
next
  case (Some y)
  then have "\<exists>n. \<not> insufficient api (status_at api n 1024 w)"
    unfolding GetFileEA_def by (rule GetFileEA_loop_returns_after_other_status)
  with assms show ?thesis by blast
qed




section \<open>Properties of the POSIX extended-attribute adapter\<close>





section \<open>Properties of fillGenericAttributes\<close>

lemma type_tags_nonempty:
  "TypeFileAttribute \<noteq> ''''" "TypeCreationTime \<noteq> ''''" "TypeSecurityDescriptor \<noteq> ''''"
  by (simp_all add: TypeFileAttribute_def TypeCreationTime_def TypeSecurityDescriptor_def)

lemma GetCreationTime_world: "world (snd (GetCreationTime fi path s)) = world s"
  by (simp add: GetCreationTime_def debug_Log_def split: option.splits)

lemma fillGenericAttributes_err_nil:
  "snd (fst (fillGenericAttributes api node path fi stat s)) = None"
  by (simp add: fillGenericAttributes_def Let_def split: prod.splits)

lemma fillGenericAttributes_part002_err_nil:
  "snd (fst (fillGenericAttributes_part002 api node path fi stat s)) = None"
  by (simp add: fillGenericAttributes_part002_def Let_def split: prod.splits)

lemma fillGenericAttributes_descriptor_failure:
  assumes ads: "\<not> strings_Contains (filepath_Base api path) '':''"
    and sd: "fst (GetFileSecurityDescriptor api path (world s)) = Inl e"
  shows "fst (fillGenericAttributes api node path fi stat s) = (True, None)
         \<and> fst (snd (fillGenericAttributes api node path fi stat s))
             = node\<lparr>GenericAttributes :=
                      GenericAttributes node @ captured_before_descriptor api path fi stat\<rparr>"
proof -
  obtain w' where g: "GetFileSecurityDescriptor api path (world s) = (Inl e, w')"
    using sd by (cases "GetFileSecurityDescriptor api path (world s)") auto
  show ?thesis
    using ads g
    by (cases "Sys fi")
       (auto simp: fillGenericAttributes_def Let_def captured_before_descriptor_def
          appendGenericAttribute_def getFileAttributes_def UInt32ToBytes_def NewGenericAttribute_def
          GetCreationTime_def getSecurityDescriptor_def sys_def debug_Log_def zeroAttribute_def
          type_tags_nonempty split: prod.splits)
qed

text \<open>
  Claim C10. For every path, file info and stat view, \<open>fillGenericAttributes\<close> of
  node\_windows.go returns a nil error. In particular, when the security descriptor cannot
  be read (for a path that is not an alternate data stream), the failure goes to the debug
  log only: the result is \<open>(true, nil)\<close>, and the node holds its former generic
  attributes followed by the ones captured before (the attribute bits and, when the file
  info has them, the creation time; none of the two for a drive root), and no security
  descriptor.
\<close>

theorem fillGenericAttributes_returns_nil_error:
  "snd (fst (fillGenericAttributes api node path fi stat s)) = None
   \<and> (\<not> strings_Contains (filepath_Base api path) '':''
        \<and> fst (GetFileSecurityDescriptor api path (world s)) = Inl e
      \<longrightarrow> fst (fillGenericAttributes api node path fi stat s) = (True, None)
          \<and> fst (snd (fillGenericAttributes api node path fi stat s))
              = node\<lparr>GenericAttributes :=
                       GenericAttributes node @ captured_before_descriptor api path fi stat\<rparr>)"
  using fillGenericAttributes_descriptor_failure [of api path s e node fi stat]
  by (simp add: fillGenericAttributes_err_nil)

text \<open>
  The theorem at a file whose security descriptor is refused with access denied; the
  creation time is the one of the spec's scenario, low word \<open>0x01020304\<close> and high
  word \<open>0x05060708\<close>.
\<close>

theorem fillGenericAttributes_returns_nil_error_witness:
  "fillGenericAttributes sim_winapi
      \<lparr>Type = ''file'', ExtendedAttributes = [], GenericAttributes = []\<rparr>
      ''report.txt'' \<lparr>Sys = Some \<lparr>FileAttributes = 0x20,
                                     CreationTime = \<lparr>LowDateTime = 0x01020304, HighDateTime = 0x05060708\<rparr>\<rparr>\<rparr>
      \<lparr>FileAttributes = 0x20, CreationTime = \<lparr>LowDateTime = 0x01020304, HighDateTime = 0x05060708\<rparr>\<rparr>
      (start (sim_file\<lparr>sim_getsd_err := Some (Errno ERROR_ACCESS_DENIED)\<rparr>))
   = ((True, None),
      \<lparr>Type = ''file'', ExtendedAttributes = [],
        GenericAttributes =
          [\<lparr>attr_Name = TypeFileAttribute, attr_Value = [0x20, 0, 0, 0], attr_Spare = []\<rparr>,
           \<lparr>attr_Name = TypeCreationTime, attr_Value = [4, 3, 2, 1, 8, 7, 6, 5], attr_Spare = []\<rparr>]\<rparr>,
      \<lparr>world = sim_file\<lparr>sim_getsd_err := Some (Errno ERROR_ACCESS_DENIED)\<rparr>,
        calls = [Call_GetFileSecurityDescriptor ''report.txt''],
        debugLog = [(''%v'', [],
                     Some (Errorf ''Error getting file SecurityDescriptor for: %s : %v''
                             [''report.txt''] (Errno ERROR_ACCESS_DENIED)))],
        unknownAttributeTypes = {}, diagnostics = []\<rparr>)"
proof -
  let ?node = "\<lparr>Type = ''file'', ExtendedAttributes = [], GenericAttributes = []\<rparr>"
  let ?stat = "\<lparr>FileAttributes = 0x20, CreationTime = \<lparr>LowDateTime = 0x01020304, HighDateTime = 0x05060708\<rparr>\<rparr>"
  let ?s = "start (sim_file\<lparr>sim_getsd_err := Some (Errno ERROR_ACCESS_DENIED)\<rparr>)"
  have base: "\<not> strings_Contains (filepath_Base sim_winapi ''report.txt'') '':''"
    by (simp add: sim_winapi_def sim_Base_def strings_HasPrefix_def)
  have sd: "fst (GetFileSecurityDescriptor sim_winapi ''report.txt'' (world ?s))
      = Inl (Errno ERROR_ACCESS_DENIED)"
    by (simp add: sim_winapi_def start_def)
  have cap: "captured_before_descriptor sim_winapi ''report.txt'' \<lparr>Sys = Some ?stat\<rparr> ?stat
      = [\<lparr>attr_Name = TypeFileAttribute, attr_Value = [0x20, 0, 0, 0], attr_Spare = []\<rparr>,
         \<lparr>attr_Name = TypeCreationTime, attr_Value = [4, 3, 2, 1, 8, 7, 6, 5], attr_Spare = []\<rparr>]"
    by (simp add: captured_before_descriptor_def sim_winapi_def strings_HasSuffix_def
        NewGenericAttribute_def PutUint32_def)
  have st: "snd (snd (fillGenericAttributes sim_winapi ?node ''report.txt'' \<lparr>Sys = Some ?stat\<rparr> ?stat ?s))
      = \<lparr>world = sim_file\<lparr>sim_getsd_err := Some (Errno ERROR_ACCESS_DENIED)\<rparr>,
        calls = [Call_GetFileSecurityDescriptor ''report.txt''],
        debugLog = [(''%v'', [],
                     Some (Errorf ''Error getting file SecurityDescriptor for: %s : %v''
                             [''report.txt''] (Errno ERROR_ACCESS_DENIED)))],
        unknownAttributeTypes = {}, diagnostics = []\<rparr>"
    by (simp add: fillGenericAttributes_def Let_def sim_winapi_def sim_Base_def strings_HasPrefix_def
        strings_HasSuffix_def GetCreationTime_def getSecurityDescriptor_def sys_def start_def
        debug_Log_def appendGenericAttribute_def getFileAttributes_def NewGenericAttribute_def
        type_tags_nonempty)
  from fillGenericAttributes_returns_nil_error
         [of sim_winapi ?node "''report.txt''" "\<lparr>Sys = Some ?stat\<rparr>" ?stat ?s "Errno ERROR_ACCESS_DENIED"]
       base sd
  have "fst (fillGenericAttributes sim_winapi ?node ''report.txt'' \<lparr>Sys = Some ?stat\<rparr> ?stat ?s)
          = (True, None)"
    and "fst (snd (fillGenericAttributes sim_winapi ?node ''report.txt'' \<lparr>Sys = Some ?stat\<rparr> ?stat ?s))
          = ?node\<lparr>GenericAttributes := GenericAttributes ?node
               @ captured_before_descriptor sim_winapi ''report.txt'' \<lparr>Sys = Some ?stat\<rparr> ?stat\<rparr>"
    by simp_all
  with st show ?thesis
    unfolding cap by (simp add: prod_eq_iff)
qed

text \<open>
  Claim C2, as the code has it. A path is a pseudo-path when the base name holds a colon
  (an alternate data stream) or when the cleaned path ends in a backslash (a drive root).
  For an alternate data stream both implementations return \<open>(false, nil)\<close> and leave
  the node and the state as they were. For a drive root the older variant does the same,
  but \<open>fillGenericAttributes\<close> of node\_windows.go returns \<open>(true, nil)\<close>: it skips
  the attribute bits and the creation time only, and still appends the security
  descriptor of a file or directory node when the system gives a non-empty one.
\<close>

theorem fillGenericAttributes_pseudo_paths:
  "(strings_Contains (filepath_Base api path) '':''
      \<longrightarrow> fillGenericAttributes api node path fi stat s = ((False, None), node, s)
          \<and> fillGenericAttributes_part002 api node path fi stat s = ((False, None), node, s))
   \<and> (strings_HasSuffix (filepath_Clean api path) [CHR 0x5C]
      \<longrightarrow> fillGenericAttributes_part002 api node path fi stat s = ((False, None), node, s))
   \<and> (\<not> strings_Contains (filepath_Base api path) '':''
        \<and> strings_HasSuffix (filepath_Clean api path) [CHR 0x5C]
      \<longrightarrow> fst (fillGenericAttributes api node path fi stat s) = (True, None)
          \<and> fst (snd (fillGenericAttributes api node path fi stat s))
              = (if Type node = ''file'' \<or> Type node = ''dir''
                 then (case fst (GetFileSecurityDescriptor api path (world s)) of
                         Inl err \<Rightarrow> node
                       | Inr sd \<Rightarrow>
                           if sd \<noteq> ''''
                           then node\<lparr>GenericAttributes := GenericAttributes node
                                  @ [NewGenericAttribute TypeSecurityDescriptor (bytes_of_string sd)]\<rparr>
                           else node)
                 else node))"
proof -
  obtain r w' where g: "GetFileSecurityDescriptor api path (world s) = (r, w')"
    by (metis surj_pair)
  show ?thesis
    by (cases r)
       (auto simp: fillGenericAttributes_def fillGenericAttributes_part002_def Let_def g
          getSecurityDescriptor_def sys_def appendGenericAttribute_def NewGenericAttribute_def
          zeroAttribute_def type_tags_nonempty split: prod.splits)
qed

text \<open>
  The theorem at the stream \<open>C:\\report.txt:meta\<close> and at the drive root \<open>C:\\\<close>
  of a directory node.
\<close>

theorem fillGenericAttributes_pseudo_paths_witness:
  "fillGenericAttributes sim_winapi
      \<lparr>Type = ''file'', ExtendedAttributes = [], GenericAttributes = []\<rparr>
      (''C:'' @ [CHR 0x5C] @ ''report.txt:meta'') \<lparr>Sys = None\<rparr>
      \<lparr>FileAttributes = 0x20, CreationTime = \<lparr>LowDateTime = 1, HighDateTime = 2\<rparr>\<rparr>
      (start sim_file)
   = ((False, None), \<lparr>Type = ''file'', ExtendedAttributes = [], GenericAttributes = []\<rparr>,
      start sim_file)
   \<and> fillGenericAttributes_part002 sim_winapi
      \<lparr>Type = ''dir'', ExtendedAttributes = [], GenericAttributes = []\<rparr>
      (''C:'' @ [CHR 0x5C]) \<lparr>Sys = None\<rparr>
      \<lparr>FileAttributes = 0x10, CreationTime = \<lparr>LowDateTime = 1, HighDateTime = 2\<rparr>\<rparr>
      (start sim_file)
   = ((False, None), \<lparr>Type = ''dir'', ExtendedAttributes = [], GenericAttributes = []\<rparr>,
      start sim_file)
   \<and> fst (snd (fillGenericAttributes sim_winapi
      \<lparr>Type = ''dir'', ExtendedAttributes = [], GenericAttributes = []\<rparr>
      (''C:'' @ [CHR 0x5C]) \<lparr>Sys = None\<rparr>
      \<lparr>FileAttributes = 0x10, CreationTime = \<lparr>LowDateTime = 1, HighDateTime = 2\<rparr>\<rparr>
      (start sim_file)))
   = \<lparr>Type = ''dir'', ExtendedAttributes = [],
       GenericAttributes = [\<lparr>attr_Name = TypeSecurityDescriptor,
                             attr_Value = [79, 58, 66, 65, 71, 58, 66, 65], attr_Spare = []\<rparr>]\<rparr>"
proof -
  let ?stream = "''C:'' @ [CHR 0x5C] @ ''report.txt:meta''"
  let ?root = "''C:'' @ [CHR 0x5C]"
  have ads: "strings_Contains (filepath_Base sim_winapi ?stream) '':''"
    by (simp add: sim_winapi_def sim_Base_def strings_HasPrefix_def)
  have base: "\<not> strings_Contains (filepath_Base sim_winapi ?root) '':''"
    by (simp add: sim_winapi_def sim_Base_def strings_HasPrefix_def)
  have root: "strings_HasSuffix (filepath_Clean sim_winapi ?root) [CHR 0x5C]"
    by (simp add: sim_winapi_def strings_HasSuffix_def)
  have sd: "fst (GetFileSecurityDescriptor sim_winapi ?root (world (start sim_file))) = Inr ''O:BAG:BA''"
    by (simp add: sim_winapi_def sim_file_def start_def)
  show ?thesis
    using
      fillGenericAttributes_pseudo_paths [of sim_winapi ?stream
        "\<lparr>Type = ''file'', ExtendedAttributes = [], GenericAttributes = []\<rparr>" "\<lparr>Sys = None\<rparr>"
        "\<lparr>FileAttributes = 0x20, CreationTime = \<lparr>LowDateTime = 1, HighDateTime = 2\<rparr>\<rparr>"
        "start sim_file"]
      fillGenericAttributes_pseudo_paths [of sim_winapi ?root
        "\<lparr>Type = ''dir'', ExtendedAttributes = [], GenericAttributes = []\<rparr>" "\<lparr>Sys = None\<rparr>"
        "\<lparr>FileAttributes = 0x10, CreationTime = \<lparr>LowDateTime = 1, HighDateTime = 2\<rparr>\<rparr>"
        "start sim_file"]
      ads base root sd
    by (simp add: NewGenericAttribute_def bytes_of_string_def)
qed

text \<open>
  Claim C2 as stated asks for \<open>allowExtended = false\<close> and no captured attribute at a
  drive root. \<open>fillGenericAttributes\<close> of node\_windows.go, on the directory node of
  the drive root \<open>C:\\\<close>, returns \<open>true\<close> and captures the security descriptor.
\<close>

theorem fillGenericAttributes_drive_root_counterexample:
  "strings_HasSuffix (filepath_Clean sim_winapi (''C:'' @ [CHR 0x5C])) [CHR 0x5C]
   \<and> fst (fillGenericAttributes sim_winapi
        \<lparr>Type = ''dir'', ExtendedAttributes = [], GenericAttributes = []\<rparr>
        (''C:'' @ [CHR 0x5C]) \<lparr>Sys = None\<rparr>
        \<lparr>FileAttributes = 0x10, CreationTime = \<lparr>LowDateTime = 1, HighDateTime = 2\<rparr>\<rparr>
        (start sim_file))
     = (True, None)
   \<and> GenericAttributes (fst (snd (fillGenericAttributes sim_winapi
        \<lparr>Type = ''dir'', ExtendedAttributes = [], GenericAttributes = []\<rparr>
        (''C:'' @ [CHR 0x5C]) \<lparr>Sys = None\<rparr>
        \<lparr>FileAttributes = 0x10, CreationTime = \<lparr>LowDateTime = 1, HighDateTime = 2\<rparr>\<rparr>
        (start sim_file))))
     = [\<lparr>attr_Name = TypeSecurityDescriptor, attr_Value = [79, 58, 66, 65, 71, 58, 66, 65], attr_Spare = []\<rparr>]"
  by (simp add: fillGenericAttributes_def Let_def sim_winapi_def sim_Base_def sim_file_def start_def
      strings_HasPrefix_def strings_HasSuffix_def getSecurityDescriptor_def sys_def
      appendGenericAttribute_def NewGenericAttribute_def bytes_of_string_def type_tags_nonempty)

section \<open>Properties of restoring generic attributes\<close>

lemma restoreGenericAttributes_part000_loop_all_reported:
  "restoreGenericAttributes_part000_loop attrs s = all_reported attrs s"
proof (induction attrs arbitrary: s)
  case Nil
  then show ?case by (simp add: all_reported_def)
next
  case (Cons attr rest)
  show ?case
  proof (cases "attr_Name attr \<in> unknownAttributeTypes s")
    case True
    then have "unknownAttributeTypes s \<union> attr_Name ` set (attr # rest)
        = unknownAttributeTypes s \<union> attr_Name ` set rest"
      by auto
    with True show ?thesis
      by (simp add: Cons.IH handleUnknownGenericAttributeFound_def all_reported_def)
  next
    case False
    then show ?thesis
      by (simp add: Cons.IH handleUnknownGenericAttributeFound_def all_reported_def)
  qed
qed

lemma restoreGenericAttributes_loop_all_unknown:
  assumes "\<forall>attr\<in>set attrs. attr_Name attr \<noteq> TypeFileAttribute
             \<and> attr_Name attr \<noteq> TypeCreationTime \<and> attr_Name attr \<noteq> TypeSecurityDescriptor"
  shows "restoreGenericAttributes_loop api path attrs errs s
         = (Returns errs, restoreGenericAttributes_part000_loop attrs s)"
  using assms
  by (induction attrs arbitrary: s) (simp_all add: restoreGenericAttribute_def)

lemma restoreGenericAttributes_part002_loop_all_unknown:
  assumes "\<forall>attr\<in>set attrs. attr_Name attr \<noteq> TypeFileAttribute
             \<and> attr_Name attr \<noteq> TypeCreationTime"
  shows "restoreGenericAttributes_part002_loop api path attrs err s
         = (Returns err, restoreGenericAttributes_part000_loop attrs s)"
  using assms
  by (induction attrs arbitrary: s) (simp_all add: restoreGenericAttribute_part002_def)

text \<open>
  Claim C7 (unknown-type tolerance). An attribute whose type has no handler is passed to
  \<open>handleUnknownGenericAttributeFound\<close>, which puts the type into the process-wide set
  of unknown types, emits one diagnostic if the type was not in the set before and none
  otherwise, and touches nothing else. The types without a handler are: on Windows
  (node\_windows.go) every name but the three type tags; in the older Windows variant
  every name but the tags of the attribute bits and the creation time, so the security
  descriptor too; on the platforms without generic attributes (part\_000, and the loops
  of the same text for OpenBSD and AIX) every name. For such an attribute the handler
  returns nil and the loop goes on with the next attribute, in the state just described
  and with no error recorded. A node all of whose attributes are so is restored without
  an error, every type ends up in the set, and each type that is new is reported once.
\<close>

theorem unknown_generic_attribute_tolerated:
  "unknownAttributeTypes (handleUnknownGenericAttributeFound (attr_Name attr) s)
     = insert (attr_Name attr) (unknownAttributeTypes s)
   \<and> diagnostics (handleUnknownGenericAttributeFound (attr_Name attr) s)
     = (if attr_Name attr \<in> unknownAttributeTypes s then diagnostics s
        else diagnostics s @ [attr_Name attr])
   \<and> world (handleUnknownGenericAttributeFound (attr_Name attr) s) = world s
   \<and> calls (handleUnknownGenericAttributeFound (attr_Name attr) s) = calls s
   \<and> debugLog (handleUnknownGenericAttributeFound (attr_Name attr) s) = debugLog s
   \<and> (attr_Name attr \<noteq> TypeFileAttribute \<and> attr_Name attr \<noteq> TypeCreationTime
        \<and> attr_Name attr \<noteq> TypeSecurityDescriptor
      \<longrightarrow> restoreGenericAttribute api attr path s
            = (Returns None, handleUnknownGenericAttributeFound (attr_Name attr) s)
          \<and> restoreGenericAttributes_loop api path (attr # rest) errs s
            = restoreGenericAttributes_loop api path rest errs
                (handleUnknownGenericAttributeFound (attr_Name attr) s))
   \<and> (attr_Name attr \<noteq> TypeFileAttribute \<and> attr_Name attr \<noteq> TypeCreationTime
      \<longrightarrow> restoreGenericAttribute_part002 api attr path s
            = (Returns None, handleUnknownGenericAttributeFound (attr_Name attr) s)
          \<and> restoreGenericAttributes_part002_loop api path (attr # rest) err s
            = restoreGenericAttributes_part002_loop api path rest err
                (handleUnknownGenericAttributeFound (attr_Name attr) s))
   \<and> restoreGenericAttributes_part000_loop (attr # rest) s
     = restoreGenericAttributes_part000_loop rest
         (handleUnknownGenericAttributeFound (attr_Name attr) s)
   \<and> restoreGenericAttributes_part000 node path s
     = (None, all_reported (GenericAttributes node) s)
   \<and> ((\<forall>a\<in>set (GenericAttributes node). attr_Name a \<noteq> TypeFileAttribute
          \<and> attr_Name a \<noteq> TypeCreationTime \<and> attr_Name a \<noteq> TypeSecurityDescriptor)
      \<longrightarrow> restoreGenericAttributes api node path s
            = (Returns None, all_reported (GenericAttributes node) s))
   \<and> ((\<forall>a\<in>set (GenericAttributes node). attr_Name a \<noteq> TypeFileAttribute
          \<and> attr_Name a \<noteq> TypeCreationTime)
      \<longrightarrow> restoreGenericAttributes_part002 api node path s
            = (Returns None, all_reported (GenericAttributes node) s))"
proof -
  have unknown: "unknownAttributeTypes (handleUnknownGenericAttributeFound (attr_Name attr) s)
      = insert (attr_Name attr) (unknownAttributeTypes s)"
    by (auto simp: handleUnknownGenericAttributeFound_def)
  have rest: "diagnostics (handleUnknownGenericAttributeFound (attr_Name attr) s)
      = (if attr_Name attr \<in> unknownAttributeTypes s then diagnostics s
         else diagnostics s @ [attr_Name attr])"
    "world (handleUnknownGenericAttributeFound (attr_Name attr) s) = world s"
    "calls (handleUnknownGenericAttributeFound (attr_Name attr) s) = calls s"
    "debugLog (handleUnknownGenericAttributeFound (attr_Name attr) s) = debugLog s"
    by (simp_all add: handleUnknownGenericAttributeFound_def)
  have windows: "restoreGenericAttribute api attr path s
        = (Returns None, handleUnknownGenericAttributeFound (attr_Name attr) s)
      \<and> restoreGenericAttributes_loop api path (attr # rest) errs s
        = restoreGenericAttributes_loop api path rest errs
            (handleUnknownGenericAttributeFound (attr_Name attr) s)"
    if "attr_Name attr \<noteq> TypeFileAttribute \<and> attr_Name attr \<noteq> TypeCreationTime
        \<and> attr_Name attr \<noteq> TypeSecurityDescriptor"
    using that by (simp add: restoreGenericAttribute_def)
  have older: "restoreGenericAttribute_part002 api attr path s
        = (Returns None, handleUnknownGenericAttributeFound (attr_Name attr) s)
      \<and> restoreGenericAttributes_part002_loop api path (attr # rest) err s
        = restoreGenericAttributes_part002_loop api path rest err
            (handleUnknownGenericAttributeFound (attr_Name attr) s)"
    if "attr_Name attr \<noteq> TypeFileAttribute \<and> attr_Name attr \<noteq> TypeCreationTime"
    using that by (simp add: restoreGenericAttribute_part002_def)
  have step: "restoreGenericAttributes_part000_loop (attr # rest) s
      = restoreGenericAttributes_part000_loop rest
          (handleUnknownGenericAttributeFound (attr_Name attr) s)"
    by simp
  have noop: "restoreGenericAttributes_part000 node path s
      = (None, all_reported (GenericAttributes node) s)"
    by (simp add: restoreGenericAttributes_part000_def
        restoreGenericAttributes_part000_loop_all_reported)
  have node_windows: "restoreGenericAttributes api node path s
        = (Returns None, all_reported (GenericAttributes node) s)"
    if "\<forall>a\<in>set (GenericAttributes node). attr_Name a \<noteq> TypeFileAttribute
          \<and> attr_Name a \<noteq> TypeCreationTime \<and> attr_Name a \<noteq> TypeSecurityDescriptor"
    using restoreGenericAttributes_loop_all_unknown [OF that, of api path "[]" s]
    by (simp add: restoreGenericAttributes_def CombineErrors_def
        restoreGenericAttributes_part000_loop_all_reported)
  have node_older: "restoreGenericAttributes_part002 api node path s
        = (Returns None, all_reported (GenericAttributes node) s)"
    if "\<forall>a\<in>set (GenericAttributes node). attr_Name a \<noteq> TypeFileAttribute
          \<and> attr_Name a \<noteq> TypeCreationTime"
    using restoreGenericAttributes_part002_loop_all_unknown [OF that, of api path None s]
    by (simp add: restoreGenericAttributes_part002_def
        restoreGenericAttributes_part000_loop_all_reported)
  show ?thesis
    using unknown rest windows older step noop node_windows node_older
    by (intro conjI impI) blast+
qed

text \<open>
  The theorem at three nodes: on Windows the attribute \<open>vendor.experimental\<close> twice in a
  row (one diagnostic, no error, no call of the system); in the older Windows variant a
  security descriptor; and on a platform without generic attributes the attribute bits,
  \<open>vendor.experimental\<close> and the attribute bits again.
\<close>

theorem unknown_generic_attribute_tolerated_witness:
  "restoreGenericAttributes sim_winapi
      \<lparr>Type = ''file'', ExtendedAttributes = [],
        GenericAttributes = [\<lparr>attr_Name = ''vendor.experimental'', attr_Value = [1], attr_Spare = []\<rparr>,
                             \<lparr>attr_Name = ''vendor.experimental'', attr_Value = [2], attr_Spare = []\<rparr>]\<rparr>
      ''f'' (start sim_file)
   = (Returns None,
      \<lparr>world = sim_file, calls = [], debugLog = [],
        unknownAttributeTypes = {''vendor.experimental''},
        diagnostics = [''vendor.experimental'']\<rparr>)
   \<and> restoreGenericAttributes_part002 sim_winapi
      \<lparr>Type = ''file'', ExtendedAttributes = [],
        GenericAttributes = [\<lparr>attr_Name = TypeSecurityDescriptor, attr_Value = [79, 58], attr_Spare = []\<rparr>]\<rparr>
      ''f'' (start sim_file)
   = (Returns None,
      \<lparr>world = sim_file, calls = [], debugLog = [],
        unknownAttributeTypes = {TypeSecurityDescriptor},
        diagnostics = [TypeSecurityDescriptor]\<rparr>)
   \<and> restoreGenericAttributes_part000
      \<lparr>Type = ''file'', ExtendedAttributes = [],
        GenericAttributes = [\<lparr>attr_Name = TypeFileAttribute, attr_Value = [0x20, 0, 0, 0], attr_Spare = []\<rparr>,
                             \<lparr>attr_Name = ''vendor.experimental'', attr_Value = [1], attr_Spare = []\<rparr>,
                             \<lparr>attr_Name = TypeFileAttribute, attr_Value = [0x21, 0, 0, 0], attr_Spare = []\<rparr>]\<rparr>
      ''f'' (start sim_file)
   = (None,
      \<lparr>world = sim_file, calls = [], debugLog = [],
        unknownAttributeTypes = {TypeFileAttribute, ''vendor.experimental''},
        diagnostics = [TypeFileAttribute, ''vendor.experimental'']\<rparr>)"
proof -
  let ?a = "\<lparr>attr_Name = ''vendor.experimental'', attr_Value = [1], attr_Spare = []\<rparr>"
  let ?b = "\<lparr>attr_Name = ''vendor.experimental'', attr_Value = [2], attr_Spare = []\<rparr>"
  let ?sd = "\<lparr>attr_Name = TypeSecurityDescriptor, attr_Value = [79, 58], attr_Spare = []\<rparr>"
  let ?f = "\<lparr>attr_Name = TypeFileAttribute, attr_Value = [0x20, 0, 0, 0], attr_Spare = []\<rparr>"
  let ?g = "\<lparr>attr_Name = TypeFileAttribute, attr_Value = [0x21, 0, 0, 0], attr_Spare = []\<rparr>"
  let ?n1 = "\<lparr>Type = ''file'', ExtendedAttributes = [], GenericAttributes = [?a, ?b]\<rparr>"
  let ?n2 = "\<lparr>Type = ''file'', ExtendedAttributes = [], GenericAttributes = [?sd]\<rparr>"
  let ?n3 = "\<lparr>Type = ''file'', ExtendedAttributes = [], GenericAttributes = [?f, ?a, ?g]\<rparr>"
  have tags: "''vendor.experimental'' \<noteq> TypeFileAttribute"
    "''vendor.experimental'' \<noteq> TypeCreationTime"
    "''vendor.experimental'' \<noteq> TypeSecurityDescriptor"
    "TypeSecurityDescriptor \<noteq> TypeFileAttribute" "TypeSecurityDescriptor \<noteq> TypeCreationTime"
    by (simp_all add: TypeFileAttribute_def TypeCreationTime_def TypeSecurityDescriptor_def)
  have r1: "all_reported [?a, ?b] (start sim_file)
      = \<lparr>world = sim_file, calls = [], debugLog = [],
          unknownAttributeTypes = {''vendor.experimental''},
          diagnostics = [''vendor.experimental'']\<rparr>"
    by (simp add: all_reported_def start_def)
  have r2: "all_reported [?sd] (start sim_file)
      = \<lparr>world = sim_file, calls = [], debugLog = [],
          unknownAttributeTypes = {TypeSecurityDescriptor},
          diagnostics = [TypeSecurityDescriptor]\<rparr>"
    by (simp add: all_reported_def start_def)
  have r3: "all_reported [?f, ?a, ?g] (start sim_file)
      = \<lparr>world = sim_file, calls = [], debugLog = [],
          unknownAttributeTypes = {TypeFileAttribute, ''vendor.experimental''},
          diagnostics = [TypeFileAttribute, ''vendor.experimental'']\<rparr>"
    using tags by (auto simp: all_reported_def start_def)
  from unknown_generic_attribute_tolerated [of ?a "start sim_file" sim_winapi "''f''" "[]" "[]" None ?n1]
    tags
  have w1: "restoreGenericAttributes sim_winapi ?n1 ''f'' (start sim_file)
      = (Returns None, all_reported [?a, ?b] (start sim_file))"
    by simp
  from unknown_generic_attribute_tolerated [of ?sd "start sim_file" sim_winapi "''f''" "[]" "[]" None ?n2]
    tags
  have w2: "restoreGenericAttributes_part002 sim_winapi ?n2 ''f'' (start sim_file)
      = (Returns None, all_reported [?sd] (start sim_file))"
    by simp
  from unknown_generic_attribute_tolerated [of ?f "start sim_file" sim_winapi "''f''" "[]" "[]" None ?n3]
  have w3: "restoreGenericAttributes_part000 ?n3 ''f'' (start sim_file)
      = (None, all_reported [?f, ?a, ?g] (start sim_file))"
    by simp
  show ?thesis
    unfolding w1 w2 w3 r1 r2 r3 by simp
qed

lemma fixEncryptionAttribute_retry_fails:
  assumes "attrs AND FILE_ATTRIBUTE_ENCRYPTED \<noteq> 0"
    and "EncryptFileW api pathPointer (world s) = (Some err1, w1)"
    and "IsAccessDenied err1"
    and "ClearSystem api path w1 = (None, w2)"
    and "EncryptFileW api pathPointer w2 = (Some err3, w3)"
  shows "fst (fixEncryptionAttribute api path attrs pathPointer s)
         = Some (Errorf ''failed to encrypt file: %s : %v'' [path] err3)"
  using assms by (simp add: fixEncryptionAttribute_def encryptFile_def sys_def)

lemma fixEncryptionAttribute_decrypt_retry_fails:
  assumes "attrs AND FILE_ATTRIBUTE_ENCRYPTED = 0"
    and "GetFileAttributes api pathPointer (world s) = (Inr existingAttrs, w0)"
    and "existingAttrs AND FILE_ATTRIBUTE_ENCRYPTED \<noteq> 0"
    and "DecryptFileW api pathPointer w0 = (Some err1, w1)"
    and "IsAccessDenied err1"
    and "ClearSystem api path w1 = (None, w2)"
    and "DecryptFileW api pathPointer w2 = (Some err3, w3)"
  shows "fst (fixEncryptionAttribute api path attrs pathPointer s)
         = Some (Errorf ''failed to decrypt file: %s : %v'' [path] err3)"
  using assms by (simp add: fixEncryptionAttribute_def decryptFile_def sys_def)

text \<open>
  Claim C3, as the code has it. When \<open>fixEncryptionAttribute\<close> fails, for instance
  after its one retry (lemma \<open>fixEncryptionAttribute_retry_fails\<close>),
  \<open>handleFileAttributes\<close> writes the error to the debug log and goes on: what it returns
  is the result of \<open>syscall.SetFileAttributes\<close> alone, so the failure of the encryption
  fix is not among the errors of the node.
\<close>

theorem handleFileAttributes_logs_encryption_failure:
  assumes "Uint32 data = Some attrs"
    and "CHR 0x00 \<notin> set path"
    and "fixEncryptionAttribute api path attrs path s = (Some e, s1)"
  shows "fst (handleFileAttributes api path data s)
           = Returns (fst (SetFileAttributes api path attrs (world s1)))
         \<and> debugLog (snd (handleFileAttributes api path data s))
           = debugLog s1 @ [(''Could not change encryption attribute for path: %s: %v'', [path], Some e)]"
  using assms
  by (simp add: handleFileAttributes_def UTF16PtrFromString_def Let_def sys_def debug_Log_def
      split: prod.splits)

text \<open>
  Claim C3 as stated asks that the failure be returned. For a file that is to be
  encrypted, in a system that refuses both calls of \<open>EncryptFileW\<close> with access denied,
  \<open>fixEncryptionAttribute\<close> fails after the retry, and yet \<open>handleFileAttributes\<close>
  and \<open>restoreGenericAttributes\<close> return nil.
\<close>

theorem handleFileAttributes_encryption_failure_counterexample:
  "fst (fixEncryptionAttribute sim_winapi ''f'' 0x4020 ''f'' (start (sim_file\<lparr>sim_denied := 2\<rparr>)))
     = Some (Errorf ''failed to encrypt file: %s : %v'' [''f''] (Errno ERROR_ACCESS_DENIED))
   \<and> fst (handleFileAttributes sim_winapi ''f'' [0x20, 0x40, 0, 0] (start (sim_file\<lparr>sim_denied := 2\<rparr>)))
     = Returns None
   \<and> fst (restoreGenericAttributes sim_winapi
            \<lparr>Type = ''file'', ExtendedAttributes = [],
              GenericAttributes = [\<lparr>attr_Name = TypeFileAttribute, attr_Value = [0x20, 0x40, 0, 0], attr_Spare = []\<rparr>]\<rparr>
            ''f'' (start (sim_file\<lparr>sim_denied := 2\<rparr>)))
     = Returns None"
  by (simp add: restoreGenericAttributes_def restoreGenericAttribute_def handleFileAttributes_def
      fixEncryptionAttribute_def encryptFile_def sys_def sim_winapi_def sim_file_def start_def
      Uint32_def le_uint32_def UTF16PtrFromString_def FILE_ATTRIBUTE_ENCRYPTED_def
      FILE_ATTRIBUTE_SYSTEM_def IsAccessDenied_def IsAccessDeniedError_def IsErrorOfType_def
      ERROR_ACCESS_DENIED_def debug_Log_def CombineErrors_def Let_def)

text \<open>The theorem in the same system.\<close>

theorem handleFileAttributes_logs_encryption_failure_witness:
  "fst (handleFileAttributes sim_winapi ''f'' [0x20, 0x40, 0, 0] (start (sim_file\<lparr>sim_denied := 2\<rparr>)))
     = Returns None
   \<and> debugLog (snd (handleFileAttributes sim_winapi ''f'' [0x20, 0x40, 0, 0]
                      (start (sim_file\<lparr>sim_denied := 2\<rparr>))))
     = [(''Could not change encryption attribute for path: %s: %v'', [''f''],
         Some (Errorf ''failed to encrypt file: %s : %v'' [''f''] (Errno ERROR_ACCESS_DENIED)))]"
proof -
  let ?s = "start (sim_file\<lparr>sim_denied := 2\<rparr>)"
  let ?s1 = "\<lparr>world = sim_file\<lparr>sim_attrs := 0x20 AND NOT FILE_ATTRIBUTE_SYSTEM, sim_denied := 0\<rparr>,
              calls = [Call_EncryptFileW ''f'', Call_ClearSystem ''f'', Call_EncryptFileW ''f''],
              debugLog = [], unknownAttributeTypes = {}, diagnostics = []\<rparr>"
  have a: "Uint32 [0x20, 0x40, 0, 0] = Some 0x4020"
    by (simp add: Uint32_def le_uint32_def)
  have b: "CHR 0x00 \<notin> set ''f''" by simp
  have c: "fixEncryptionAttribute sim_winapi ''f'' 0x4020 ''f'' ?s
      = (Some (Errorf ''failed to encrypt file: %s : %v'' [''f''] (Errno ERROR_ACCESS_DENIED)), ?s1)"
    by (simp add: fixEncryptionAttribute_def encryptFile_def sys_def sim_winapi_def sim_file_def
        start_def FILE_ATTRIBUTE_ENCRYPTED_def IsAccessDenied_def IsAccessDeniedError_def
        IsErrorOfType_def)
  have d: "fst (SetFileAttributes sim_winapi ''f'' 0x4020 (world ?s1)) = None"
    by (simp add: sim_winapi_def sim_file_def)
  from handleFileAttributes_logs_encryption_failure [OF a b c] d
  show ?thesis by simp
qed

text \<open>
  Claim C4 does not hold of the code. Whenever the wanted attributes have the encrypted
  bit, the first thing \<open>fixEncryptionAttribute\<close> does is to call \<open>EncryptFileW\<close>,
  whatever the state of the file is: the attributes of the existing file are not read on
  this branch. (On the other branch they are, and nothing is called for a file that is
  not encrypted: lemma \<open>fixEncryptionAttribute_no_call_when_unencrypted\<close>.)
\<close>

theorem fixEncryptionAttribute_encrypts_unconditionally:
  assumes "attrs AND FILE_ATTRIBUTE_ENCRYPTED \<noteq> 0"
  shows "\<exists>more. calls (snd (fixEncryptionAttribute api path attrs pathPointer s))
           = calls s @ Call_EncryptFileW pathPointer # more"
  using assms
  by (auto simp: fixEncryptionAttribute_def encryptFile_def sys_def split: prod.splits option.splits)

text \<open>
  The theorem at a file that is encrypted already and is wanted encrypted: the one call
  made is \<open>EncryptFileW\<close>.
\<close>

theorem fixEncryptionAttribute_encrypts_unconditionally_witness:
  "fst (GetFileAttributes sim_winapi ''f'' (sim_file\<lparr>sim_attrs := 0x4020\<rparr>)) = Inr 0x4020
   \<and> fixEncryptionAttribute sim_winapi ''f'' 0x4020 ''f'' (start (sim_file\<lparr>sim_attrs := 0x4020\<rparr>))
     = (None, \<lparr>world = sim_file\<lparr>sim_attrs := 0x4020\<rparr>, calls = [Call_EncryptFileW ''f''],
               debugLog = [], unknownAttributeTypes = {}, diagnostics = []\<rparr>)"
proof -
  have "(0x4020 :: uint32) AND FILE_ATTRIBUTE_ENCRYPTED \<noteq> 0"
    by (simp add: FILE_ATTRIBUTE_ENCRYPTED_def)
  from fixEncryptionAttribute_encrypts_unconditionally [OF this, of sim_winapi "''f''" "''f''"
      "start (sim_file\<lparr>sim_attrs := 0x4020\<rparr>)"]
  show ?thesis
    by (simp add: fixEncryptionAttribute_def encryptFile_def sys_def sim_winapi_def sim_file_def
        start_def FILE_ATTRIBUTE_ENCRYPTED_def)
qed

lemma fixEncryptionAttribute_no_call_when_unencrypted:
  assumes "attrs AND FILE_ATTRIBUTE_ENCRYPTED = 0"
    and "GetFileAttributes api pathPointer (world s) = (Inr existingAttrs, w1)"
    and "existingAttrs AND FILE_ATTRIBUTE_ENCRYPTED = 0"
  shows "fixEncryptionAttribute api path attrs pathPointer s
         = (None, s\<lparr>world := w1, calls := calls s @ [Call_GetFileAttributes pathPointer]\<rparr>)"
  using assms by (simp add: fixEncryptionAttribute_def sys_def)

lemma type_tags_distinct:
  "TypeFileAttribute \<noteq> TypeCreationTime" "TypeFileAttribute \<noteq> TypeSecurityDescriptor"
  "TypeCreationTime \<noteq> TypeSecurityDescriptor"
  by (simp_all add: TypeFileAttribute_def TypeCreationTime_def TypeSecurityDescriptor_def)

lemma handleFileAttributes_no_panic:
  "4 \<le> length data \<Longrightarrow> fst (handleFileAttributes api path data s) \<noteq> Panics"
  by (auto simp: handleFileAttributes_def Uint32_def Let_def split: sum.splits prod.splits)

lemma handleCreationTime_no_panic:
  "8 \<le> length data \<Longrightarrow> fst (handleCreationTime api path data spare s) \<noteq> Panics"
  by (auto simp: handleCreationTime_def Let_def split: sum.splits prod.splits)

lemma handleSecurityDescriptor_no_panic:
  "fst (handleSecurityDescriptor api path data s) \<noteq> Panics"
  by (auto simp: handleSecurityDescriptor_def split: prod.splits)

lemma restoreGenericAttribute_no_panic:
  "wellformed attr \<Longrightarrow> fst (restoreGenericAttribute api attr path s) \<noteq> Panics"
  by (simp add: restoreGenericAttribute_def wellformed_def handleFileAttributes_no_panic
      handleCreationTime_no_panic handleSecurityDescriptor_no_panic)

lemma handleFileAttributes_part002_no_panic:
  "4 \<le> length data \<Longrightarrow> fst (handleFileAttributes_part002 api path data s) \<noteq> Panics"
  by (auto simp: handleFileAttributes_part002_def Uint32_def split: sum.splits prod.splits)

lemma handleCreationTime_part002_no_panic:
  "8 \<le> length data \<Longrightarrow> fst (handleCreationTime_part002 api path data spare s) \<noteq> Panics"
  by (auto simp: handleCreationTime_part002_def Let_def split: sum.splits prod.splits option.splits)

lemma restoreGenericAttribute_part002_no_panic:
  "wellformed attr \<Longrightarrow> fst (restoreGenericAttribute_part002 api attr path s) \<noteq> Panics"
  by (simp add: restoreGenericAttribute_part002_def wellformed_def
      handleFileAttributes_part002_no_panic handleCreationTime_part002_no_panic)

lemma length_run_handlers: "length (fst (run_handlers h onFailure attrs s)) = length attrs"
  by (induction attrs arbitrary: s) (simp_all add: case_prod_beta)

lemma length_attempted: "length (fst (attempted api path attrs s)) = length attrs"
  by (simp add: attempted_def length_run_handlers)

lemma restoreGenericAttributes_loop_attempted:
  assumes "\<forall>attr\<in>set attrs. wellformed attr"
  shows "restoreGenericAttributes_loop api path attrs errs s
         = (Returns (errs @ map (wrapped path) (failures (fst (attempted api path attrs s)))),
            snd (attempted api path attrs s))"
  using assms
proof (induction attrs arbitrary: errs s)
  case Nil
  then show ?case by (simp add: attempted_def)
next
  case (Cons attr rest)
  obtain r s1 where h: "restoreGenericAttribute api attr path s = (r, s1)"
    by (metis surj_pair)
  from Cons.prems have "wellformed attr" by simp
  then have np: "r \<noteq> Panics"
    using restoreGenericAttribute_no_panic [of attr api path s] by (simp add: h)
  from Cons.prems have rest: "\<forall>attr\<in>set rest. wellformed attr" by simp
  show ?case
  proof (cases r)
    case Panics
    with np show ?thesis by simp
  next
    case (Returns e)
    then show ?thesis
      using Cons.IH [OF rest]
      by (cases e) (simp_all add: h attempted_def wrapped_def split: prod.splits)
  qed
qed

lemma restoreGenericAttributes_part002_loop_attempted:
  assumes "\<forall>attr\<in>set attrs. wellformed attr"
  shows "restoreGenericAttributes_part002_loop api path attrs err s
         = (Returns (case failures (fst (attempted_part002 api path attrs s)) of
                       [] \<Rightarrow> err
                     | e # es \<Rightarrow> Some (wrapped_part002 path (last (e # es)))),
            snd (attempted_part002 api path attrs s))"
  using assms
proof (induction attrs arbitrary: err s)
  case Nil
  then show ?case by (simp add: attempted_part002_def)
next
  case (Cons attr rest)
  obtain r s1 where h: "restoreGenericAttribute_part002 api attr path s = (r, s1)"
    by (metis surj_pair)
  from Cons.prems have "wellformed attr" by simp
  then have np: "r \<noteq> Panics"
    using restoreGenericAttribute_part002_no_panic [of attr api path s] by (simp add: h)
  from Cons.prems have rest: "\<forall>attr\<in>set rest. wellformed attr" by simp
  show ?case
  proof (cases r)
    case Panics
    with np show ?thesis by simp
  next
    case (Returns e)
    then show ?thesis
      using Cons.IH [OF rest]
      by (cases e)
         (simp_all add: h attempted_part002_def wrapped_part002_def Let_def
            split: prod.splits list.splits)
  qed
qed

text \<open>
  A value that is too short for its handler: \<open>restoreGenericAttributes\<close> panics at the
  attribute bits of two bytes and does not reach the attribute after it.
\<close>

lemma restoreGenericAttributes_short_value_panics:
  "restoreGenericAttributes sim_winapi
      \<lparr>Type = ''file'', ExtendedAttributes = [],
        GenericAttributes = [\<lparr>attr_Name = TypeFileAttribute, attr_Value = [0x20, 0], attr_Spare = []\<rparr>,
                             \<lparr>attr_Name = ''vendor.experimental'', attr_Value = [1], attr_Spare = []\<rparr>]\<rparr>
      ''f'' (start sim_file)
   = (Panics, start sim_file)"
  by (simp add: restoreGenericAttributes_def restoreGenericAttribute_def handleFileAttributes_def
      Uint32_def)

text \<open>
  The creation time is read through slice expressions, which look at the capacity: a
  value of seven bytes panics when its backing array ends there, and is restored, with
  the eighth byte of the array, when the array is longer.
\<close>

lemma handleCreationTime_reads_capacity:
  "fst (handleCreationTime sim_winapi ''f'' [4, 3, 2, 1, 8, 7, 6] [] (start sim_file)) = Panics
   \<and> handleCreationTime sim_winapi ''f'' [4, 3, 2, 1, 8, 7, 6] [5] (start sim_file)
     = (Returns None,
        \<lparr>world = sim_file\<lparr>sim_creation := \<lparr>LowDateTime = 0x01020304, HighDateTime = 0x05060708\<rparr>\<rparr>,
          calls = [Call_CreateFile ''f'',
                   Call_SetFileTime 1 \<lparr>LowDateTime = 0x01020304, HighDateTime = 0x05060708\<rparr>,
                   Call_CloseHandle 1],
          debugLog = [], unknownAttributeTypes = {}, diagnostics = []\<rparr>)"
  by (simp add: handleCreationTime_def UTF16PtrFromString_def sys_def sim_winapi_def sim_file_def
      start_def closeHandle_def le_uint32_def Let_def)

text \<open>
  Claim C8, as the code has it. For a node whose attribute values are long enough to be
  decoded (no handler panics), both Windows implementations try the handler of every
  generic attribute in turn, whatever the earlier handlers returned.
  \<open>restoreGenericAttributes\<close> of node\_windows.go returns the combination of all the
  failures, each wrapped with the path, in order, and nil when there is none. The older
  variant writes every failure to the debug log and returns the last one only.
\<close>

theorem restoreGenericAttributes_attempts_all:
  assumes "\<forall>attr\<in>set (GenericAttributes node). wellformed attr"
  shows "restoreGenericAttributes api node path s
         = (Returns (CombineErrors
                       (map (wrapped path)
                          (failures (fst (attempted api path (GenericAttributes node) s))))),
            snd (attempted api path (GenericAttributes node) s))
       \<and> length (fst (attempted api path (GenericAttributes node) s))
         = length (GenericAttributes node)
       \<and> restoreGenericAttributes_part002 api node path s
         = (Returns (case failures (fst (attempted_part002 api path (GenericAttributes node) s)) of
                       [] \<Rightarrow> None
                     | e # es \<Rightarrow> Some (wrapped_part002 path (last (e # es)))),
            snd (attempted_part002 api path (GenericAttributes node) s))"
  using assms
  by (simp add: restoreGenericAttributes_def restoreGenericAttributes_part002_def
      restoreGenericAttributes_loop_attempted restoreGenericAttributes_part002_loop_attempted
      length_attempted)

lemmas sim_eval =
  restoreGenericAttributes_def restoreGenericAttribute_def handleFileAttributes_def
  handleCreationTime_def handleSecurityDescriptor_def
  restoreGenericAttributes_part002_def restoreGenericAttribute_part002_def
  handleFileAttributes_part002_def handleCreationTime_part002_def
  handleUnknownGenericAttributeFound_def closeHandle_def
  fixEncryptionAttribute_def encryptFile_def decryptFile_def sys_def sim_winapi_def sim_file_def
  start_def Uint32_def le_uint32_def UTF16PtrFromString_def FILE_ATTRIBUTE_ENCRYPTED_def
  FILE_ATTRIBUTE_SYSTEM_def IsAccessDenied_def IsAccessDeniedError_def IsErrorOfType_def
  ERROR_ACCESS_DENIED_def debug_Log_def CombineErrors_def Let_def
  TypeFileAttribute_def TypeCreationTime_def TypeSecurityDescriptor_def

text \<open>
  Claim C8 as stated asks for an error that contains all recorded failures. On a node
  with two failing attributes the older variant returns the second failure alone: the
  first, \<open>Errno 5\<close> of the attribute bits, is not in the result.
\<close>

theorem restoreGenericAttributes_part002_counterexample:
  "fst (restoreGenericAttribute_part002 sim_winapi
          \<lparr>attr_Name = TypeFileAttribute, attr_Value = [0x20, 0, 0, 0], attr_Spare = []\<rparr> ''f'' (start failing_file))
     = Returns (Some (Errno 5))
   \<and> fst (restoreGenericAttributes_part002 sim_winapi two_failures ''f'' (start failing_file))
     = Returns (Some (Errorf ''Error restoring generic attribute for: %s : %v'' [''f''] (Errno 32)))"
  by (simp add: two_failures_def failing_file_def sim_eval)

text \<open>
  The theorem at the same node, which also holds an attribute of an unknown type between
  the two failing ones.
\<close>

theorem restoreGenericAttributes_attempts_all_witness:
  "fst (restoreGenericAttributes sim_winapi two_failures ''f'' (start failing_file))
     = Returns (Some (MultipleErrors
         [Errorf ''error restoring generic attribute for: %s : %v'' [''f''] (Errno 5),
          Errorf ''error restoring generic attribute for: %s : %v'' [''f''] (Errno 32)]))
   \<and> calls (snd (restoreGenericAttributes sim_winapi two_failures ''f'' (start failing_file)))
     = [Call_GetFileAttributes ''f'', Call_SetFileAttributes ''f'' 0x20, Call_CreateFile ''f'']
   \<and> unknownAttributeTypes (snd (restoreGenericAttributes sim_winapi two_failures ''f'' (start failing_file)))
     = {''vendor.experimental''}
   \<and> fst (restoreGenericAttributes_part002 sim_winapi two_failures ''f'' (start failing_file))
     = Returns (Some (Errorf ''Error restoring generic attribute for: %s : %v'' [''f''] (Errno 32)))"
proof -
  have wf: "\<forall>attr\<in>set (GenericAttributes two_failures). wellformed attr"
    by (simp add: two_failures_def wellformed_def TypeFileAttribute_def TypeCreationTime_def)
  have a: "attempted sim_winapi ''f'' (GenericAttributes two_failures) (start failing_file)
      = ([Returns (Some (Errno 5)), Returns None, Returns (Some (Errno 32))],
         \<lparr>world = failing_file,
          calls = [Call_GetFileAttributes ''f'', Call_SetFileAttributes ''f'' 0x20, Call_CreateFile ''f''],
          debugLog = [], unknownAttributeTypes = {''vendor.experimental''},
          diagnostics = [''vendor.experimental'']\<rparr>)"
    by (simp add: attempted_def two_failures_def failing_file_def sim_eval)
  have b: "fst (attempted_part002 sim_winapi ''f'' (GenericAttributes two_failures) (start failing_file))
      = [Returns (Some (Errno 5)), Returns None, Returns (Some (Errno 32))]"
    by (simp add: attempted_part002_def two_failures_def failing_file_def sim_eval wrapped_part002_def)
  from restoreGenericAttributes_attempts_all [OF wf, of sim_winapi "''f''" "start failing_file"]
  show ?thesis
    by (simp add: a b CombineErrors_def wrapped_def wrapped_part002_def)
qed


end
